theory Spec2Isabelle
  imports Main
begin

section \<open>Errors and outcomes\<close>

text \<open>
  The reshaping nodes of ReshapingNodes.h signal failure by throwing (InvalidArgument,
  LogicError, RuntimeError, the NOT_IMPLEMENTED macro), by a failing assert, or by
  dividing by zero. Each of these is an \<open>error\<close> value. The messages are kept as the
  format strings of the source together with the arguments passed to them.

  A call either returns with a new state or throws, and a throw leaves the state as it
  was at that moment: both outcomes carry a state, so that what had been written before a
  failure can be stated.

  An \<open>assert\<close> of the source fails only in a build without \<open>NDEBUG\<close>; with \<open>NDEBUG\<close> it is
  no statement at all. The operations that contain an \<open>assert\<close> take the build as their
  first argument, \<open>NDEBUG\<close>, which is \<open>True\<close> for the build that leaves the assertions out.
\<close>

datatype error =
    InvalidArgument string "nat list"
  | LogicError string "string list"
  | RuntimeError string
  | NotImplemented
  | DivisionByZero
  | AssertionFailed
  | MatrixError
  | NullReference
  | IndexOutOfRange

datatype 's outcome = Returns 's | Throws error 's

section \<open>Dense matrices\<close>

text \<open>
  Matrix.h is not part of the sources. A matrix is its two dimensions and its elements in
  column-major order, the order that the comments of \<open>Stack\<close> and of \<open>ReshapeNode\<close>
  describe (the feature dimension is the row index and runs fastest; reshaping from
  \<open>rows\<close> to \<open>2 * rows\<close> groups two consecutive columns into one). Sizes (\<open>size_t\<close>) are
  natural numbers where they are sizes of matrices that exist in memory; the sum of the
  two parameters of RowSlice, which are not bounded by any buffer, wraps around at
  \<open>2^64\<close> as the \<open>size_t\<close> sum of the source does. The element type (float or double in the source) is a
  type parameter; where values are scaled or added it is a semiring or a monoid, with exact
  arithmetic.
\<close>

record 'a Matrix =
  numRows :: nat
  numCols :: nat
  elems :: "'a list"

definition GetNumElements :: "'a Matrix \<Rightarrow> nat" where
  "GetNumElements M = numRows M * numCols M"

definition wellformed :: "'a Matrix \<Rightarrow> bool" where
  "wellformed M = (length (elems M) = numRows M * numCols M)"

text \<open>Element \<open>(i, j)\<close> of a matrix (\<open>operator()\<close>).\<close>

definition elem :: "'a Matrix \<Rightarrow> nat \<Rightarrow> nat \<Rightarrow> 'a" where
  "elem M i j = elems M ! (j * numRows M + i)"

text \<open>The matrix of the given dimensions whose element \<open>(i, j)\<close> is \<open>f i j\<close>.\<close>

definition tabulate :: "nat \<Rightarrow> nat \<Rightarrow> (nat \<Rightarrow> nat \<Rightarrow> 'a) \<Rightarrow> 'a Matrix" where
  "tabulate r c f =
     \<lparr>numRows = r, numCols = c, elems = map (\<lambda>n. f (n mod r) (n div r)) [0..<r * c]\<rparr>"

text \<open>
  Modelled from the spec: \<open>resize(rows, cols)\<close> of the tensor buffer reallocates. The
  contents after a reallocation are not specified; the model fills the buffer with zeros
  and no result below depends on these values.
\<close>

definition Matrix_Resize :: "nat \<Rightarrow> nat \<Rightarrow> 'a::zero Matrix" where
  "Matrix_Resize r c = \<lparr>numRows = r, numCols = c, elems = replicate (r * c) 0\<rparr>"

text \<open>
  Modelled from the spec: \<open>reshape(rows, cols)\<close> is a view of the same elements under
  other dimensions, without a copy; it requires \<open>rows * cols\<close> unchanged.
\<close>

definition Reshaped :: "'a Matrix \<Rightarrow> nat \<Rightarrow> nat \<Rightarrow> 'a Matrix option" where
  "Reshaped M r c =
     (if r * c = GetNumElements M then Some (M\<lparr>numRows := r, numCols := c\<rparr>) else None)"

section \<open>Memory, layouts and the base node\<close>

text \<open>
  Value buffers, gradient buffers and minibatch layouts are shared objects that nodes hold
  by pointer. The memory maps addresses to matrices and to layouts; \<open>next_free\<close> is the
  allocation frontier of the layouts, so that \<open>make_shared\<close> hands out an address that no
  live pointer holds. Of a layout only the two derived counts are kept: the flags per
  (sequence, time step) are read and written only by disabled code of the source.
\<close>

type_synonym addr = nat

record MBLayout =
  m_numParallelSequences :: nat
  m_numTimeSteps :: nat

text \<open>
  Modelled from the spec: \<open>initialize(numSequences, numTimeSteps)\<close> of the layout
  (the class MBLayout is not part of the sources) sets the two counts.
\<close>

definition Init :: "nat \<Rightarrow> nat \<Rightarrow> MBLayout" where
  "Init numParallelSequences numTimeSteps =
     \<lparr>m_numParallelSequences = numParallelSequences, m_numTimeSteps = numTimeSteps\<rparr>"

record 'a Memory =
  matrices :: "addr \<Rightarrow> 'a Matrix"
  layouts :: "addr \<Rightarrow> MBLayout"
  next_free :: addr

text \<open>
  Modelled from the spec: a node that changes the time axis owns a freshly allocated
  layout. \<open>make_shared<MBLayout>()\<close> gives a fresh address; its contents are whatever
  the memory holds there (the constructor of MBLayout is not part of the sources).
\<close>

definition make_shared_MBLayout :: "'a Memory \<Rightarrow> addr \<times> 'a Memory" where
  "make_shared_MBLayout mem = (next_free mem, mem\<lparr>next_free := Suc (next_free mem)\<rparr>)"

record ImageLayout =
  width :: nat
  height :: nat
  channels :: nat

text \<open>
  Modelled from the spec: the image hint is a triple (width, height, channels); its
  number of elements is their product (ImageLayout is not part of the sources).
\<close>

definition ImageLayout_GetNumElements :: "ImageLayout \<Rightarrow> nat" where
  "ImageLayout_GetNumElements L = width L * height L * channels L"

text \<open>
  Modelled from the spec: the base computation node (ComputationNode.h is not part of the
  sources) owns a value buffer and a gradient buffer, may hold a layout, and carries the
  image-size hints. Its accessors return its own buffers; its dimensions are those of
  its value buffer; \<open>Resize\<close> and \<open>VerifySize\<close> act on its value buffer; the layout
  counts are read from the layout it holds. The inputs of a node are passed to each
  operation as base nodes. \<open>Base::Validate\<close>, which checks the wiring of the inputs, is
  not modelled: each \<open>Validate\<close> below starts after it has returned. All operations are
  modelled for the frame range that covers the whole minibatch, where \<open>ValueSlice\<close>,
  \<open>GradientSlice\<close> and \<open>DataSlice\<close> are the buffers themselves.
\<close>

record ComputationNode =
  m_nodeName :: string
  m_functionValues :: addr
  m_gradientValues :: addr
  m_pMBLayout :: "addr option"
  m_inputImageLayout :: ImageLayout
  m_outputImageLayout :: ImageLayout

text \<open>Modelled from the spec: the name of a node, as the base node keeps it.\<close>

definition NodeName :: "'z ComputationNode_scheme \<Rightarrow> string" where
  "NodeName node = m_nodeName node"

text \<open>
  Modelled from the spec: the value accessor and the gradient accessor of the base node
  return the buffers that the node owns.
\<close>

definition FunctionValues :: "'z ComputationNode_scheme \<Rightarrow> addr" where
  "FunctionValues node = m_functionValues node"

definition GradientValues :: "'z ComputationNode_scheme \<Rightarrow> addr" where
  "GradientValues node = m_gradientValues node"

text \<open>Modelled from the spec: whether the node carries a minibatch layout.\<close>

definition HasMBLayout :: "'z ComputationNode_scheme \<Rightarrow> bool" where
  "HasMBLayout node = (m_pMBLayout node \<noteq> None)"

text \<open>
  Modelled from the spec: the row count and the column count of a node are those of its
  value buffer.
\<close>

definition GetNumRows :: "'z ComputationNode_scheme \<Rightarrow> 'a Memory \<Rightarrow> nat" where
  "GetNumRows node mem = numRows (matrices mem (FunctionValues node))"

definition GetNumCols :: "'z ComputationNode_scheme \<Rightarrow> 'a Memory \<Rightarrow> nat" where
  "GetNumCols node mem = numCols (matrices mem (FunctionValues node))"

text \<open>
  Modelled from the spec: \<open>Resize\<close> of the base node reallocates the node's value buffer
  with the given dimensions.
\<close>

definition Resize :: "'z ComputationNode_scheme \<Rightarrow> nat \<Rightarrow> nat \<Rightarrow> 'a::zero Memory \<Rightarrow> 'a Memory" where
  "Resize node rows cols mem =
     mem\<lparr>matrices := (matrices mem)(m_functionValues node := Matrix_Resize rows cols)\<rparr>"

text \<open>
  Modelled from the spec: \<open>VerifySize\<close> of the base node checks that the node's value
  buffer has the given dimensions; the callers throw when it does not.
\<close>

definition VerifySize :: "'z ComputationNode_scheme \<Rightarrow> nat \<Rightarrow> nat \<Rightarrow> 'a Memory \<Rightarrow> bool" where
  "VerifySize node rows cols mem =
     (numRows (matrices mem (m_functionValues node)) = rows \<and>
      numCols (matrices mem (m_functionValues node)) = cols)"

text \<open>
  Modelled from the spec: the validation layer propagates the auxiliary shape metadata.
  \<open>InferImageDimsFromInput(index, true)\<close> of the base node makes the input's output hints
  this node's input hints and output hints.
\<close>

definition InferImageDimsFromInput ::
  "'z ComputationNode_scheme \<Rightarrow> 'y ComputationNode_scheme \<Rightarrow> 'z ComputationNode_scheme" where
  "InferImageDimsFromInput node child =
     node\<lparr>m_inputImageLayout := m_outputImageLayout child,
          m_outputImageLayout := m_outputImageLayout child\<rparr>"

section \<open>ReshapeNode\<close>

record ReshapeNode = ComputationNode +
  m_numRows :: nat
  m_imageLayout :: ImageLayout

text \<open>The two constructors: the first is the one used before \<open>LoadFromFile\<close>.\<close>

definition new_ComputationNode :: "string \<Rightarrow> addr \<Rightarrow> addr \<Rightarrow> ComputationNode" where
  "new_ComputationNode name values gradients =
     \<lparr>m_nodeName = name, m_functionValues = values, m_gradientValues = gradients,
      m_pMBLayout = None,
      m_inputImageLayout = \<lparr>width = 0, height = 0, channels = 0\<rparr>,
      m_outputImageLayout = \<lparr>width = 0, height = 0, channels = 0\<rparr>\<rparr>"

definition new_ReshapeNode :: "string \<Rightarrow> addr \<Rightarrow> addr \<Rightarrow> ReshapeNode" where
  "new_ReshapeNode name values gradients =
     ComputationNode.extend (new_ComputationNode name values gradients)
       (ReshapeNode.fields 0 \<lparr>width = 0, height = 0, channels = 0\<rparr>)"

definition new_ReshapeNode_with :: "string \<Rightarrow> addr \<Rightarrow> addr \<Rightarrow> nat \<Rightarrow> ImageLayout \<Rightarrow> ReshapeNode" where
  "new_ReshapeNode_with name values gradients numRows' imageLayout =
     ComputationNode.extend (new_ComputationNode name values gradients)
       (ReshapeNode.fields numRows' imageLayout)"

definition weStack :: "ReshapeNode \<Rightarrow> ComputationNode \<Rightarrow> 'a Memory \<Rightarrow> bool" where
  "weStack node Inputs0 mem = (m_numRows node > GetNumRows Inputs0 mem)"

definition isNoop :: "ReshapeNode \<Rightarrow> ComputationNode \<Rightarrow> 'a Memory \<Rightarrow> bool" where
  "isNoop node Inputs0 mem = (m_numRows node = GetNumRows Inputs0 mem)"

text \<open>
  \<open>InferImageDimensions\<close> completes a partially given image size from \<open>m_numRows\<close>, or
  fails with a RuntimeError.
\<close>

definition InferImageDimensions :: "ReshapeNode \<Rightarrow> ReshapeNode outcome" where
  "InferImageDimensions node =
     (let L = m_imageLayout node; n = m_numRows node in
      if width L > 0 then
        if height L > 0 then
          if channels L > 0 then
            if ImageLayout_GetNumElements L \<noteq> n
            then Throws (RuntimeError ''Image dimensions do not match row size.'') node
            else Returns node
          else
            if n mod (width L * height L) > 0
            then Throws (RuntimeError ''Image row size is not a multiple of specified image dimensions.'') node
            else Returns (node\<lparr>m_imageLayout := L\<lparr>channels := n div (width L * height L)\<rparr>\<rparr>)
        else
          if channels L > 0 then
            if n mod (width L * channels L) > 0
            then Throws (RuntimeError ''Image row size is not a multiple of specified image dimensions.'') node
            else Returns (node\<lparr>m_imageLayout := L\<lparr>height := n div (width L * channels L)\<rparr>\<rparr>)
          else Throws (RuntimeError ''At least two image dimensions must be specified.'') node
      else
        if height L > 0 then
          if channels L > 0 then
            if n mod (height L * channels L) > 0
            then Throws (RuntimeError ''Image row size is not a multiple of specified image dimensions.'') node
            else Returns (node\<lparr>m_imageLayout := L\<lparr>width := n div (height L * channels L)\<rparr>\<rparr>)
          else Throws (RuntimeError ''At least two image dimensions must be specified.'') node
        else if channels L > 0
          then Throws (RuntimeError ''At least two image dimensions must be specified.'') node
          else Returns node)"

definition ReshapeNode_InferImageDimsFromInputs :: "ReshapeNode \<Rightarrow> ComputationNode \<Rightarrow> ReshapeNode outcome" where
  "ReshapeNode_InferImageDimsFromInputs node Inputs0 =
     (case InferImageDimensions (InferImageDimsFromInput node Inputs0) of
        Throws e node1 \<Rightarrow> Throws e node1
      | Returns node1 \<Rightarrow>
          if width (m_imageLayout node1) = 0 \<or> height (m_imageLayout node1) = 0 \<or>
             channels (m_imageLayout node1) = 0
          then Returns (node1\<lparr>m_outputImageLayout :=
                  \<lparr>width = 1, height = 1, channels = m_numRows node1\<rparr>\<rparr>)
          else Returns (node1\<lparr>m_outputImageLayout := m_imageLayout node1\<rparr>))"

text \<open>
  \<open>Validate\<close>. The quotient \<open>cols * rows / m_numRows\<close> is computed first, on every pass; a
  zero divisor is the error \<open>DivisionByZero\<close>, as is the zero \<open>rows\<close> in
  \<open>m_numRows % rows\<close>, which \<open>&&\<close> evaluates only when \<open>m_numRows > rows\<close>. The second check
  of the final pass is the expression of the source, \<open>rows * cols != m_numRows != newCols\<close>:
  \<open>!=\<close> associates to the left, so the truth value of \<open>rows * cols != m_numRows\<close> (0 or 1) is
  compared with \<open>newCols\<close>. The \<open>assert\<close> that the node holds no layout when its input has
  none fails only without \<open>NDEBUG\<close>; with \<open>NDEBUG\<close> the node keeps the layout it holds.
\<close>

definition ReshapeNode_Validate_layout ::
  "bool \<Rightarrow> ReshapeNode \<Rightarrow> ComputationNode \<Rightarrow> 'a Memory \<Rightarrow> (ReshapeNode \<times> 'a Memory) outcome" where
  "ReshapeNode_Validate_layout NDEBUG node Inputs0 mem =
     (if HasMBLayout Inputs0 then
        (if m_pMBLayout node = None
         then (let (p, mem1) = make_shared_MBLayout mem
               in Returns (node\<lparr>m_pMBLayout := Some p\<rparr>, mem1))
         else Returns (node, mem))
      else
        (if NDEBUG \<or> m_pMBLayout node = None then Returns (node, mem)
         else Throws AssertionFailed (node, mem)))"

definition ReshapeNode_Validate ::
  "bool \<Rightarrow> bool \<Rightarrow> ReshapeNode \<Rightarrow> ComputationNode \<Rightarrow> 'a::zero Memory
     \<Rightarrow> (ReshapeNode \<times> 'a Memory) outcome" where
  "ReshapeNode_Validate NDEBUG isFinalValidationPass node Inputs0 mem =
     (let rows = GetNumRows Inputs0 mem; cols = GetNumCols Inputs0 mem in
      if m_numRows node = 0 then Throws DivisionByZero (node, mem)
      else
        let newCols = cols * rows div m_numRows node in
        if isFinalValidationPass \<and> m_numRows node > rows \<and> rows = 0
        then Throws DivisionByZero (node, mem)
        else if isFinalValidationPass \<and>
                ((m_numRows node > rows \<and> m_numRows node mod rows \<noteq> 0) \<or>
                 (m_numRows node < rows \<and> rows mod m_numRows node \<noteq> 0))
        then Throws (InvalidArgument
               ''%ls %ls operation: output row dimension %d is not an integer multiple or divisor of input dimension %d''
               [m_numRows node, rows]) (node, mem)
        else if isFinalValidationPass \<and> m_pMBLayout node = None \<and>
                (if rows * cols \<noteq> m_numRows node then 1 else 0) \<noteq> newCols
        then Throws (LogicError ''%ls %ls operation: unexpected dimension mismatch'' []) (node, mem)
        else
          (case ReshapeNode_Validate_layout NDEBUG node Inputs0
                  (Resize node (m_numRows node) newCols mem) of
             Throws e s \<Rightarrow> Throws e s
           | Returns (node1, mem1) \<Rightarrow>
               (case ReshapeNode_InferImageDimsFromInputs node1 Inputs0 of
                  Throws e node2 \<Rightarrow> Throws e (node2, mem1)
                | Returns node2 \<Rightarrow> Returns (node2, mem1))))"

text \<open>
  Modelled from the spec: \<open>numParallelSequences()\<close> and \<open>numTimeSteps()\<close> of the layout
  capability. The counts of a node are read from the layout it holds; a node without a
  layout has none.
\<close>

definition GetNumParallelSequences :: "'z ComputationNode_scheme \<Rightarrow> 'a Memory \<Rightarrow> nat option" where
  "GetNumParallelSequences node mem =
     map_option (\<lambda>p. m_numParallelSequences (layouts mem p)) (m_pMBLayout node)"

definition GetNumTimeSteps :: "'z ComputationNode_scheme \<Rightarrow> 'a Memory \<Rightarrow> nat option" where
  "GetNumTimeSteps node mem =
     map_option (\<lambda>p. m_numTimeSteps (layouts mem p)) (m_pMBLayout node)"

text \<open>
  Modelled from the spec: the tensor-shuffle-scale-add primitive of the tensor buffer
  (Matrix.h is not part of the sources). The input \<open>a\<close> is read as a tensor of dimensions
  \<open>(D, S, M, K, T)\<close> and the outputs \<open>b\<close>, \<open>c\<close> as tensors of dimensions
  \<open>(D, K, M, S, T)\<close>, the first index running fastest; element \<open>(d, k, m, s, t)\<close> of \<open>c\<close>
  becomes \<open>keepWeight\<close> times that element of \<open>b\<close> plus \<open>scaleFactor\<close> times element
  \<open>(d, s, m, k, t)\<close> of \<open>a\<close>.
\<close>

definition TensorShuffleScaleAndAdd ::
  "'a::semiring_1 \<Rightarrow> 'a Matrix \<Rightarrow> nat \<Rightarrow> nat \<Rightarrow> nat \<Rightarrow> nat \<Rightarrow> nat \<Rightarrow> 'a \<Rightarrow> 'a Matrix \<Rightarrow> 'a Matrix
     \<Rightarrow> 'a Matrix option" where
  "TensorShuffleScaleAndAdd keepWeight a D S M K T scaleFactor b c =
     (let N = D * S * M * K * T in
      if GetNumElements a \<noteq> N \<or> GetNumElements b \<noteq> N \<or> GetNumElements c \<noteq> N then None
      else Some (c\<lparr>elems :=
        map (\<lambda>nb.
               let d = nb mod D;
                   k = nb div D mod K;
                   m = nb div (D * K) mod M;
                   s = nb div (D * K * M) mod S;
                   t = nb div (D * K * M * S);
                   na = (((t * K + k) * M + m) * S + s) * D + d
               in keepWeight * (elems b ! nb) + scaleFactor * (elems a ! na))
            [0..<N]\<rparr>))"

text \<open>
  \<open>Stack\<close> of ReshapingNodeBase: the input, viewed with the dimensions of the target and
  then, like the target, as \<open>D\<close> rows by \<open>S*M*K*T\<close> columns, is shuffled into the target's
  buffer. \<open>S\<close> and \<open>T\<close> are the counts of the target's layout.
\<close>

definition Stack ::
  "ComputationNode \<Rightarrow> 'z ComputationNode_scheme \<Rightarrow> nat \<Rightarrow> bool \<Rightarrow> 'a::semiring_1 Memory
     \<Rightarrow> 'a Memory outcome" where
  "Stack fromN toN K addTo mem =
     (case Reshaped (matrices mem (FunctionValues fromN)) (GetNumRows toN mem) (GetNumCols toN mem) of
        None \<Rightarrow> Throws MatrixError mem
      | Some from0 \<Rightarrow>
          let fromSlice0 = from0;
              toSlice0 = matrices mem (FunctionValues toN);
              D = GetNumRows fromN mem;
              SMKT = GetNumCols fromN mem
          in (case (Reshaped fromSlice0 D SMKT, Reshaped toSlice0 D SMKT) of
                (Some fromSlice, Some toSlice) \<Rightarrow>
                  (case (GetNumParallelSequences toN mem, GetNumTimeSteps toN mem) of
                     (Some S, Some T) \<Rightarrow>
                       (case TensorShuffleScaleAndAdd (if addTo then 1 else 0) fromSlice D S 1 K T 1
                               toSlice toSlice of
                          None \<Rightarrow> Throws MatrixError mem
                        | Some c \<Rightarrow>
                            Returns (mem\<lparr>matrices := (matrices mem)
                              (FunctionValues toN := (matrices mem (FunctionValues toN))\<lparr>elems := elems c\<rparr>)\<rparr>))
                   | _ \<Rightarrow> Throws NullReference mem)
              | _ \<Rightarrow> Throws MatrixError mem))"

definition Unstack ::
  "ComputationNode \<Rightarrow> 'z ComputationNode_scheme \<Rightarrow> nat \<Rightarrow> bool \<Rightarrow> 'a Memory \<Rightarrow> 'a Memory outcome" where
  "Unstack fromN toN K addTo mem = Throws NotImplemented mem"

text \<open>\<open>factor()\<close>: the divisions are those of the source; a zero divisor gives no value.\<close>

definition factor :: "ReshapeNode \<Rightarrow> ComputationNode \<Rightarrow> 'a Memory \<Rightarrow> nat option" where
  "factor node Inputs0 mem =
     (if m_numRows node > GetNumRows Inputs0 mem
      then (if GetNumRows Inputs0 mem = 0 then None
            else Some (m_numRows node div GetNumRows Inputs0 mem))
      else (if m_numRows node = 0 then None
            else Some (GetNumRows Inputs0 mem div m_numRows node)))"

text \<open>
  \<open>OnEvaluateBeginIteration\<close>: the node's own layout is initialised again with the node's
  own number of parallel sequences and the derived number of time steps.
\<close>

definition ReshapeNode_OnEvaluateBeginIteration ::
  "ReshapeNode \<Rightarrow> ComputationNode \<Rightarrow> 'a Memory \<Rightarrow> 'a Memory outcome" where
  "ReshapeNode_OnEvaluateBeginIteration node Inputs0 mem =
     (case m_pMBLayout node of
        None \<Rightarrow> Returns mem
      | Some p \<Rightarrow>
          (case (GetNumParallelSequences node mem, GetNumTimeSteps Inputs0 mem) of
             (Some S, Some T) \<Rightarrow>
               if m_numRows node = 0 then Throws DivisionByZero mem
               else Returns (mem\<lparr>layouts := (layouts mem)
                       (p := Init S (T * GetNumRows Inputs0 mem div m_numRows node))\<rparr>)
           | _ \<Rightarrow> Throws NullReference mem))"

text \<open>
  \<open>EvaluateThisNode\<close>. Without a layout the values are copied as one long vector into the
  node's buffer, whose dimensions stay those that \<open>VerifySize\<close> has checked.
\<close>

definition ReshapeNode_EvaluateThisNode ::
  "bool \<Rightarrow> ReshapeNode \<Rightarrow> ComputationNode \<Rightarrow> 'a::semiring_1 Memory \<Rightarrow> 'a Memory outcome" where
  "ReshapeNode_EvaluateThisNode NDEBUG node Inputs0 mem =
     (if isNoop node Inputs0 mem then Returns mem
      else
        let rows = GetNumRows Inputs0 mem; cols = GetNumCols Inputs0 mem in
        if m_numRows node = 0 then Throws DivisionByZero mem
        else
          let newCols = cols * rows div m_numRows node in
          if \<not> NDEBUG \<and> newCols * m_numRows node \<noteq> cols * rows then Throws AssertionFailed mem
          else if \<not> VerifySize node (m_numRows node) newCols mem then Throws MatrixError mem
          else if m_pMBLayout node = None then
            (case (Reshaped (matrices mem (m_functionValues node)) (newCols * m_numRows node) 1,
                   Reshaped (matrices mem (FunctionValues Inputs0)) (cols * rows) 1) of
               (Some target, Some source) \<Rightarrow>
                 Returns (mem\<lparr>matrices := (matrices mem)
                   (m_functionValues node :=
                      (matrices mem (m_functionValues node))\<lparr>elems := elems source\<rparr>)\<rparr>)
             | _ \<Rightarrow> Throws MatrixError mem)
          else if weStack node Inputs0 mem then
            (case factor node Inputs0 mem of
               None \<Rightarrow> Throws DivisionByZero mem
             | Some K \<Rightarrow> Stack Inputs0 node K False mem)
          else
            (case factor node Inputs0 mem of
               None \<Rightarrow> Throws DivisionByZero mem
             | Some K \<Rightarrow> Unstack Inputs0 node K False mem))"

definition ReshapeNode_ComputeInputPartial ::
  "ReshapeNode \<Rightarrow> ComputationNode \<Rightarrow> nat \<Rightarrow> 'a Memory \<Rightarrow> 'a Memory outcome" where
  "ReshapeNode_ComputeInputPartial node Inputs0 inputIndex mem =
     Throws (LogicError ''ReshapeNode::ComputeInputPartial: to be completed'' []) mem"

text \<open>
  The const value accessor of ReshapeNode, the only one that the class overrides.
\<close>

definition ReshapeNode_FunctionValues_const :: "ReshapeNode \<Rightarrow> ComputationNode \<Rightarrow> 'a Memory \<Rightarrow> addr" where
  "ReshapeNode_FunctionValues_const node Inputs0 mem =
     (if \<not> isNoop node Inputs0 mem then m_functionValues node else FunctionValues Inputs0)"

text \<open>
  Modelled from the spec: the non-const value accessor of a ReshapeNode is the one it
  inherits from the base node (the class does not override it; the source marks its
  accessor with the note BUGBUG, there is a const and a non-const version of this
  function), which returns the buffer that the node owns.
\<close>

definition ReshapeNode_FunctionValues :: "ReshapeNode \<Rightarrow> ComputationNode \<Rightarrow> 'a Memory \<Rightarrow> addr" where
  "ReshapeNode_FunctionValues node Inputs0 mem = FunctionValues node"

section \<open>Row operations of the matrix\<close>

text \<open>
  The row operations of the tensor buffer that RowSlice, RowStack and RowRepeat call are
  not part of the sources (Matrix.h). Each checks that the dimensions fit and has no
  result otherwise.
\<close>

text \<open>
  Modelled from the spec: \<open>AssignRowSliceValuesOf\<close> copies a row range: the target becomes
  rows \<open>[startIndex, startIndex + numRows)\<close> of \<open>a\<close>.
\<close>

definition AssignRowSliceValuesOf :: "'a Matrix \<Rightarrow> nat \<Rightarrow> nat \<Rightarrow> 'a Matrix option" where
  "AssignRowSliceValuesOf a startIndex numRows' =
     (if startIndex + numRows' \<le> numRows a
      then Some (tabulate numRows' (numCols a) (\<lambda>i j. elem a (startIndex + i) j))
      else None)"

text \<open>
  Modelled from the spec: \<open>AddToRowSliceValuesOf\<close> adds \<open>a\<close> into rows
  \<open>[startIndex, startIndex + numRows)\<close> of the target and keeps the other rows.
\<close>

definition AddToRowSliceValuesOf :: "'a::plus Matrix \<Rightarrow> 'a Matrix \<Rightarrow> nat \<Rightarrow> nat \<Rightarrow> 'a Matrix option" where
  "AddToRowSliceValuesOf this a startIndex numRows' =
     (if numRows a = numRows' \<and> startIndex + numRows' \<le> numRows this \<and> numCols a = numCols this
      then Some (tabulate (numRows this) (numCols this)
             (\<lambda>i j. if startIndex \<le> i \<and> i < startIndex + numRows'
                    then elem this i j + elem a (i - startIndex) j
                    else elem this i j))
      else None)"

text \<open>
  Modelled from the spec: \<open>AddWithRowSliceValuesOf\<close> adds rows
  \<open>[startIndex, startIndex + numRows)\<close> of \<open>a\<close> to the target, from row 0 of the target on.
\<close>

definition AddWithRowSliceValuesOf :: "'a::plus Matrix \<Rightarrow> 'a Matrix \<Rightarrow> nat \<Rightarrow> nat \<Rightarrow> 'a Matrix option" where
  "AddWithRowSliceValuesOf this a startIndex numRows' =
     (if numRows this = numRows' \<and> startIndex + numRows' \<le> numRows a \<and> numCols a = numCols this
      then Some (tabulate (numRows this) (numCols this)
             (\<lambda>i j. elem this i j + elem a (startIndex + i) j))
      else None)"

text \<open>
  Modelled from the spec: \<open>AssignToRowSliceValuesOf\<close> writes \<open>a\<close> into rows
  \<open>[startIndex, startIndex + numRows)\<close> of the target and keeps the other rows.
\<close>

definition AssignToRowSliceValuesOf :: "'a Matrix \<Rightarrow> 'a Matrix \<Rightarrow> nat \<Rightarrow> nat \<Rightarrow> 'a Matrix option" where
  "AssignToRowSliceValuesOf this a startIndex numRows' =
     (if numRows a = numRows' \<and> startIndex + numRows' \<le> numRows this \<and> numCols a = numCols this
      then Some (tabulate (numRows this) (numCols this)
             (\<lambda>i j. if startIndex \<le> i \<and> i < startIndex + numRows'
                    then elem a (i - startIndex) j
                    else elem this i j))
      else None)"

text \<open>
  Modelled from the spec: \<open>AssignRepeatOf\<close> makes the target the repetition of \<open>a\<close>, whole
  copies one after the other (stacked, not interleaved): row \<open>i\<close> is row
  \<open>i mod numRows a\<close> of \<open>a\<close>.
\<close>

definition AssignRepeatOf :: "'a Matrix \<Rightarrow> nat \<Rightarrow> nat \<Rightarrow> 'a Matrix" where
  "AssignRepeatOf a numRowRepeats numColRepeats =
     tabulate (numRows a * numRowRepeats) (numCols a * numColRepeats)
       (\<lambda>i j. elem a (i mod numRows a) (j mod numCols a))"

text \<open>
  Modelled from the spec: \<open>AddToRowRepeatValuesOf\<close> adds each of the \<open>numRepeats\<close> copies
  of a row in \<open>a\<close> to that row of the target, one copy after the other.
\<close>

definition AddToRowRepeatValuesOf :: "'a::plus Matrix \<Rightarrow> 'a Matrix \<Rightarrow> nat \<Rightarrow> 'a Matrix option" where
  "AddToRowRepeatValuesOf this a numRepeats =
     (if numRows a = numRows this * numRepeats \<and> numCols a = numCols this
      then Some (tabulate (numRows this) (numCols this)
             (\<lambda>i j. foldl (+) (elem this i j)
                      (map (\<lambda>k. elem a (k * numRows this + i) j) [0..<numRepeats])))
      else None)"

text \<open>
  Modelled from the spec: a node that does not change the time axis aliases the layout
  of its input (\<open>InferMBLayoutFromInputsForStandardCase\<close> of the base node): it takes the
  layout pointer of the first input that has one.
\<close>

definition InferMBLayoutFromInputsForStandardCase ::
  "'z ComputationNode_scheme \<Rightarrow> ComputationNode list \<Rightarrow> 'z ComputationNode_scheme" where
  "InferMBLayoutFromInputsForStandardCase node Inputs =
     node\<lparr>m_pMBLayout :=
       (case List.find HasMBLayout Inputs of None \<Rightarrow> None | Some child \<Rightarrow> m_pMBLayout child)\<rparr>"

section \<open>RowSliceNode\<close>

record RowSliceNode = ComputationNode +
  m_startIndex :: nat
  m_numRows_RowSlice :: nat

definition RowSliceNode_ComputeInputPartial ::
  "RowSliceNode \<Rightarrow> ComputationNode \<Rightarrow> 'a::plus Memory \<Rightarrow> 'a Memory outcome" where
  "RowSliceNode_ComputeInputPartial node Inputs0 mem =
     (case AddToRowSliceValuesOf (matrices mem (GradientValues Inputs0))
             (matrices mem (GradientValues node)) (m_startIndex node) (m_numRows_RowSlice node) of
        None \<Rightarrow> Throws MatrixError mem
      | Some g \<Rightarrow> Returns (mem\<lparr>matrices := (matrices mem)(GradientValues Inputs0 := g)\<rparr>))"

definition RowSliceNode_EvaluateThisNode ::
  "RowSliceNode \<Rightarrow> ComputationNode \<Rightarrow> 'a Memory \<Rightarrow> 'a Memory outcome" where
  "RowSliceNode_EvaluateThisNode node Inputs0 mem =
     (case AssignRowSliceValuesOf (matrices mem (FunctionValues Inputs0))
             (m_startIndex node) (m_numRows_RowSlice node) of
        None \<Rightarrow> Throws MatrixError mem
      | Some v \<Rightarrow> Returns (mem\<lparr>matrices := (matrices mem)(FunctionValues node := v)\<rparr>))"



section \<open>RowStackNode\<close>

record RowStackNode = ComputationNode +
  m_startRowIndices :: "nat list"

text \<open>\<open>std::vector::resize\<close>: the first entries are kept, new entries are 0.\<close>

definition vector_resize :: "nat list \<Rightarrow> nat \<Rightarrow> nat list" where
  "vector_resize v n = take n v @ replicate (n - length v) 0"

definition RowStackNode_ComputeInputPartial ::
  "RowStackNode \<Rightarrow> ComputationNode list \<Rightarrow> nat \<Rightarrow> 'a::plus Memory \<Rightarrow> 'a Memory outcome" where
  "RowStackNode_ComputeInputPartial node Inputs inputIndex mem =
     (if inputIndex \<ge> length Inputs \<or> inputIndex \<ge> length (m_startRowIndices node)
      then Throws IndexOutOfRange mem
      else
        (case AddWithRowSliceValuesOf (matrices mem (GradientValues (Inputs ! inputIndex)))
                (matrices mem (GradientValues node)) (m_startRowIndices node ! inputIndex)
                (GetNumRows (Inputs ! inputIndex) mem) of
           None \<Rightarrow> Throws MatrixError mem
         | Some g \<Rightarrow>
             Returns (mem\<lparr>matrices := (matrices mem)(GradientValues (Inputs ! inputIndex) := g)\<rparr>)))"

text \<open>
  The loop of \<open>EvaluateThisNode\<close> over the inputs from \<open>inputIndex\<close> on; \<open>rest\<close> are the
  inputs not yet written.
\<close>

fun RowStackNode_EvaluateThisNode_loop ::
  "RowStackNode \<Rightarrow> ComputationNode list \<Rightarrow> nat \<Rightarrow> 'a Memory \<Rightarrow> 'a Memory outcome" where
  "RowStackNode_EvaluateThisNode_loop node [] inputIndex mem = Returns mem"
| "RowStackNode_EvaluateThisNode_loop node (child # rest) inputIndex mem =
     (if inputIndex \<ge> length (m_startRowIndices node) then Throws IndexOutOfRange mem
      else
        (case AssignToRowSliceValuesOf (matrices mem (FunctionValues node))
                (matrices mem (FunctionValues child)) (m_startRowIndices node ! inputIndex)
                (GetNumRows child mem) of
           None \<Rightarrow> Throws MatrixError mem
         | Some v \<Rightarrow>
             RowStackNode_EvaluateThisNode_loop node rest (Suc inputIndex)
               (mem\<lparr>matrices := (matrices mem)(FunctionValues node := v)\<rparr>)))"

definition RowStackNode_EvaluateThisNode ::
  "RowStackNode \<Rightarrow> ComputationNode list \<Rightarrow> 'a Memory \<Rightarrow> 'a Memory outcome" where
  "RowStackNode_EvaluateThisNode node Inputs mem = RowStackNode_EvaluateThisNode_loop node Inputs 0 mem"

text \<open>
  The loop of \<open>Validate\<close> from input \<open>i\<close> on: the state is the offset table and the running
  total; a mismatch of the column count stops it on the final pass.
\<close>

fun RowStackNode_Validate_loop ::
  "bool \<Rightarrow> nat \<Rightarrow> 'a Memory \<Rightarrow> ComputationNode list \<Rightarrow> nat \<Rightarrow> nat list \<times> nat \<Rightarrow> (nat list \<times> nat) outcome" where
  "RowStackNode_Validate_loop isFinalValidationPass numCols' mem [] i (indices, totalRows) =
     Returns (indices, totalRows)"
| "RowStackNode_Validate_loop isFinalValidationPass numCols' mem (child # rest) i (indices, totalRows) =
     (if isFinalValidationPass \<and> GetNumCols child mem \<noteq> numCols'
      then Throws (LogicError ''RowStack operation: the input node %ls has different number of columns.''
                     [NodeName child]) (indices, totalRows)
      else RowStackNode_Validate_loop isFinalValidationPass numCols' mem rest (Suc i)
             (indices[i := totalRows], totalRows + GetNumRows child mem))"

definition RowStackNode_InferImageDimsFromInputs ::
  "RowStackNode \<Rightarrow> ComputationNode \<Rightarrow> 'a Memory \<Rightarrow> RowStackNode" where
  "RowStackNode_InferImageDimsFromInputs node Inputs0 mem =
     (let node1 = InferImageDimsFromInput node Inputs0
      in node1\<lparr>m_outputImageLayout :=
           (m_outputImageLayout node1)\<lparr>height := GetNumRows node1 mem\<rparr>\<rparr>)"

definition RowStackNode_Validate ::
  "bool \<Rightarrow> RowStackNode \<Rightarrow> ComputationNode list \<Rightarrow> 'a::zero Memory \<Rightarrow> (RowStackNode \<times> 'a Memory) outcome" where
  "RowStackNode_Validate isFinalValidationPass node Inputs mem =
     (let node1 = InferMBLayoutFromInputsForStandardCase node Inputs in
      case Inputs of
        [] \<Rightarrow> Throws IndexOutOfRange (node1, mem)
      | Inputs0 # _ \<Rightarrow>
          let numCols' = GetNumCols Inputs0 mem;
              node2 = node1\<lparr>m_startRowIndices := vector_resize (m_startRowIndices node1) (length Inputs)\<rparr>
          in (case RowStackNode_Validate_loop isFinalValidationPass numCols' mem Inputs 0
                     (m_startRowIndices node2, 0) of
                Throws e (indices, totalRows) \<Rightarrow> Throws e (node2\<lparr>m_startRowIndices := indices\<rparr>, mem)
              | Returns (indices, totalRows) \<Rightarrow>
                  (let mem1 = Resize node2 totalRows numCols' mem
                   in Returns (RowStackNode_InferImageDimsFromInputs
                                 (node2\<lparr>m_startRowIndices := indices\<rparr>) Inputs0 mem1, mem1))))"

section \<open>RowRepeatNode\<close>

record RowRepeatNode = ComputationNode +
  m_numRepeat :: nat

definition RowRepeatNode_isNoop :: "RowRepeatNode \<Rightarrow> bool" where
  "RowRepeatNode_isNoop node = (m_numRepeat node = 1)"



definition RowRepeatNode_EvaluateThisNode ::
  "RowRepeatNode \<Rightarrow> ComputationNode \<Rightarrow> 'a Memory \<Rightarrow> 'a Memory outcome" where
  "RowRepeatNode_EvaluateThisNode node Inputs0 mem =
     (if \<not> RowRepeatNode_isNoop node
      then Returns (mem\<lparr>matrices := (matrices mem)
             (m_functionValues node :=
                AssignRepeatOf (matrices mem (FunctionValues Inputs0)) (m_numRepeat node) 1)\<rparr>)
      else Returns mem)"

definition RowRepeatNode_ComputeInputPartial ::
  "RowRepeatNode \<Rightarrow> ComputationNode \<Rightarrow> 'a::plus Memory \<Rightarrow> 'a Memory outcome" where
  "RowRepeatNode_ComputeInputPartial node Inputs0 mem =
     (case AddToRowRepeatValuesOf (matrices mem (GradientValues Inputs0))
             (matrices mem (GradientValues node)) (m_numRepeat node) of
        None \<Rightarrow> Throws MatrixError mem
      | Some g \<Rightarrow> Returns (mem\<lparr>matrices := (matrices mem)(GradientValues Inputs0 := g)\<rparr>))"

text \<open>RowRepeatNode overrides both value accessors, the const and the non-const one.\<close>

definition RowRepeatNode_FunctionValues_const :: "RowRepeatNode \<Rightarrow> ComputationNode \<Rightarrow> addr" where
  "RowRepeatNode_FunctionValues_const node Inputs0 =
     (if \<not> RowRepeatNode_isNoop node then m_functionValues node else FunctionValues Inputs0)"

definition RowRepeatNode_FunctionValues :: "RowRepeatNode \<Rightarrow> ComputationNode \<Rightarrow> addr" where
  "RowRepeatNode_FunctionValues node Inputs0 =
     (if \<not> RowRepeatNode_isNoop node then m_functionValues node else FunctionValues Inputs0)"

section \<open>Example data\<close>

definition example_memory :: "int Memory" where
  "example_memory =
     \<lparr>matrices = (\<lambda>a. if a = 0 then \<lparr>numRows = 2, numCols = 3, elems = [1, 2, 3, 4, 5, 6]\<rparr>
                       else if a = 2 then \<lparr>numRows = 2, numCols = 2, elems = [7, 8, 9, 10]\<rparr>
                       else if a = 3 then \<lparr>numRows = 2, numCols = 2, elems = [11, 12, 13, 14]\<rparr>
                       else if a = 4 then \<lparr>numRows = 3, numCols = 2, elems = [21, 22, 23, 24, 25, 26]\<rparr>
                       else if a = 5 then \<lparr>numRows = 1, numCols = 2, elems = [31, 32]\<rparr>
                       else if a = 13 then \<lparr>numRows = 2, numCols = 2, elems = [10, 20, 30, 40]\<rparr>
                       else if a = 15 then \<lparr>numRows = 6, numCols = 2,
                              elems = [101, 102, 103, 104, 105, 106, 107, 108, 109, 110, 111, 112]\<rparr>
                       else if a = 17 then \<lparr>numRows = 6, numCols = 3,
                              elems = [1, 2, 3, 4, 5, 6, 7, 8, 9, 10, 11, 12, 13, 14, 15, 16, 17, 18]\<rparr>
                       else if a = 20 then \<lparr>numRows = 2, numCols = 3, elems = [1, 2, 3, 4, 5, 6]\<rparr>
                       else if a = 24 then \<lparr>numRows = 3, numCols = 2, elems = [1, 2, 3, 4, 5, 6]\<rparr>
                       else if a = 25 then \<lparr>numRows = 1, numCols = 2, elems = [7, 8]\<rparr>
                       else \<lparr>numRows = 0, numCols = 0, elems = []\<rparr>),
      layouts = (\<lambda>a. Init 1 1),
      next_free = 0\<rparr>"


definition example_slice :: RowSliceNode where
  "example_slice = ComputationNode.extend (new_ComputationNode ''s'' 12 13) (RowSliceNode.fields 1 2)"

definition example_stack :: RowStackNode where
  "example_stack = ComputationNode.extend (new_ComputationNode ''k'' 14 15) (RowStackNode.fields [])"

definition example_repeat :: RowRepeatNode where
  "example_repeat = ComputationNode.extend (new_ComputationNode ''rep'' 16 17) (RowRepeatNode.fields 3)"

definition example_stack_validated :: RowStackNode where
  "example_stack_validated =
     ComputationNode.extend (new_ComputationNode ''k'' 14 15) (RowStackNode.fields [0, 2, 5])"

definition example_minibatch :: "int Memory" where
  "example_minibatch =
     \<lparr>matrices = (\<lambda>a. if a = 0 then \<lparr>numRows = 2, numCols = 12,
                            elems = [1, 11, 21, 31, 2, 12, 22, 32, 3, 13, 23, 33,
                                     4, 14, 24, 34, 5, 15, 25, 35, 6, 16, 26, 36]\<rparr>
                       else if a = 10 then \<lparr>numRows = 6, numCols = 4, elems = replicate 24 0\<rparr>
                       else if a = 30 then \<lparr>numRows = 6, numCols = 2,
                              elems = [1, 2, 3, 4, 5, 6, 7, 8, 9, 10, 11, 12]\<rparr>
                       else if a = 32 then \<lparr>numRows = 3, numCols = 4, elems = replicate 12 0\<rparr>
                       else \<lparr>numRows = 0, numCols = 0, elems = []\<rparr>),
      layouts = (\<lambda>a. if a = 0 then Init 2 2 else if a = 3 then Init 2 6 else Init 1 0),
      next_free = 4\<rparr>"

definition example_stacking :: ReshapeNode where
  "example_stacking =
     (new_ReshapeNode_with ''r'' 10 11 6 \<lparr>width = 0, height = 0, channels = 0\<rparr>)\<lparr>m_pMBLayout := Some 0\<rparr>"

definition example_unstacking :: ReshapeNode where
  "example_unstacking =
     (new_ReshapeNode_with ''u'' 32 33 3 \<lparr>width = 0, height = 0, channels = 0\<rparr>)\<lparr>m_pMBLayout := Some 0\<rparr>"

definition example_reshape6 :: ReshapeNode where
  "example_reshape6 = new_ReshapeNode_with ''r'' 10 11 6 \<lparr>width = 0, height = 0, channels = 0\<rparr>"

definition example_noop :: ReshapeNode where
  "example_noop = new_ReshapeNode_with ''n'' 10 11 2 \<lparr>width = 0, height = 0, channels = 0\<rparr>"

definition example_repeat_once :: RowRepeatNode where
  "example_repeat_once =
     ComputationNode.extend (new_ComputationNode ''rep1'' 16 17) (RowRepeatNode.fields 1)"



text \<open>
  The minibatch of the example with the contents \<open>L\<close> at the first unallocated layout
  address, which is the address that the next \<open>make_shared\<close> hands out.
\<close>

definition example_minibatch_fresh :: "MBLayout \<Rightarrow> int Memory" where
  "example_minibatch_fresh L = example_minibatch\<lparr>layouts := (layouts example_minibatch)(4 := L)\<rparr>"
section \<open>Basic facts\<close>

lemma numRows_tabulate [simp]: "numRows (tabulate r c f) = r"
  by (simp add: tabulate_def)

lemma numCols_tabulate [simp]: "numCols (tabulate r c f) = c"
  by (simp add: tabulate_def)

lemma wellformed_tabulate [simp]: "wellformed (tabulate r c f)"
  by (simp add: tabulate_def wellformed_def)

lemma index_in_range:
  fixes i j r c :: nat
  assumes "i < r" "j < c"
  shows "j * r + i < r * c"
proof -
  have "j * r + i < j * r + r" using assms by simp
  also have "\<dots> = (Suc j) * r" by simp
  also have "\<dots> \<le> c * r" using assms by (intro mult_le_mono1) simp
  finally show ?thesis by (simp add: mult.commute)
qed

lemma elem_tabulate [simp]:
  assumes "i < r" "j < c"
  shows "elem (tabulate r c f) i j = f i j"
  using index_in_range [OF assms] assms
  by (simp add: elem_def tabulate_def)

lemma matrices_Resize:
  "matrices (Resize node r c mem) a =
     (if a = m_functionValues node then Matrix_Resize r c else matrices mem a)"
  by (simp add: Resize_def)

section \<open>Validation with a zero row count\<close>

text \<open>
  C10. \<open>ReshapeNode::Validate\<close> divides by \<open>m_numRows\<close> before any check and on every
  pass, final or not: a node whose \<open>m_numRows\<close> is 0, such as the one the deserialization
  constructor builds, fails with a division by zero, whatever its input and the memory
  are, and not with a configuration error; nothing has been written at that point.
\<close>

theorem ReshapeNode_Validate_zero_numRows:
  "ReshapeNode_Validate NDEBUG isFinalValidationPass (new_ReshapeNode name values gradients) Inputs0 mem
     = Throws DivisionByZero (new_ReshapeNode name values gradients, mem)
   \<and> (m_numRows node = 0 \<longrightarrow>
        ReshapeNode_Validate NDEBUG isFinalValidationPass node Inputs0 mem = Throws DivisionByZero (node, mem))"
  by (simp add: ReshapeNode_Validate_def new_ReshapeNode_def ReshapeNode.defs ComputationNode.defs)

theorem ReshapeNode_Validate_zero_numRows_witness:
  "ReshapeNode_Validate True True (new_ReshapeNode ''reshape'' 1 2) (new_ComputationNode ''features'' 0 3)
     \<lparr>matrices = (\<lambda>a. \<lparr>numRows = 2, numCols = 3, elems = [1, 2, 3, 4, 5, 6 :: int]\<rparr>),
      layouts = (\<lambda>a. Init 1 3), next_free = 0\<rparr>
   = Throws DivisionByZero (new_ReshapeNode ''reshape'' 1 2,
     \<lparr>matrices = (\<lambda>a. \<lparr>numRows = 2, numCols = 3, elems = [1, 2, 3, 4, 5, 6 :: int]\<rparr>),
      layouts = (\<lambda>a. Init 1 3), next_free = 0\<rparr>)
   \<and> m_numRows (new_ReshapeNode ''reshape'' 1 2) = 0
   \<and> ReshapeNode_Validate False False (new_ReshapeNode ''reshape'' 1 2) (new_ComputationNode ''features'' 0 3)
     \<lparr>matrices = (\<lambda>a. \<lparr>numRows = 2, numCols = 3, elems = [1, 2, 3, 4, 5, 6 :: int]\<rparr>),
      layouts = (\<lambda>a. Init 1 3), next_free = 0\<rparr>
   = Throws DivisionByZero (new_ReshapeNode ''reshape'' 1 2,
     \<lparr>matrices = (\<lambda>a. \<lparr>numRows = 2, numCols = 3, elems = [1, 2, 3, 4, 5, 6 :: int]\<rparr>),
      layouts = (\<lambda>a. Init 1 3), next_free = 0\<rparr>)"
  using ReshapeNode_Validate_zero_numRows [of True True "''reshape''" 1 2 "new_ComputationNode ''features'' 0 3"
      "\<lparr>matrices = (\<lambda>a. \<lparr>numRows = 2, numCols = 3, elems = [1, 2, 3, 4, 5, 6 :: int]\<rparr>),
        layouts = (\<lambda>a. Init 1 3), next_free = 0\<rparr>" "new_ReshapeNode ''reshape'' 1 2"]
    ReshapeNode_Validate_zero_numRows [of False False "''reshape''" 1 2 "new_ComputationNode ''features'' 0 3"
      "\<lparr>matrices = (\<lambda>a. \<lparr>numRows = 2, numCols = 3, elems = [1, 2, 3, 4, 5, 6 :: int]\<rparr>),
        layouts = (\<lambda>a. Init 1 3), next_free = 0\<rparr>" "new_ReshapeNode ''reshape'' 1 2"]
  by (simp add: new_ReshapeNode_def ReshapeNode.defs ComputationNode.defs)

section \<open>Checks of the final validation pass\<close>

lemma Validate_loop_returns:
  assumes "fin \<longrightarrow> (\<forall>c\<in>set cs. GetNumCols c mem = nc)"
  shows "\<exists>idx'. RowStackNode_Validate_loop fin nc mem cs i (idx, tot) =
           Returns (idx', tot + sum_list (map (\<lambda>c. GetNumRows c mem) cs))
         \<and> length idx' = length idx
         \<and> (\<forall>j<length cs. i + j < length idx \<longrightarrow>
               idx' ! (i + j) = tot + sum_list (map (\<lambda>c. GetNumRows c mem) (take j cs)))
         \<and> (\<forall>j<i. idx' ! j = idx ! j)"
  using assms
proof (induction cs arbitrary: i idx tot)
  case Nil
  then show ?case by simp
next
  case (Cons c cs)
  from Cons.prems have noThrow: "\<not> (fin \<and> GetNumCols c mem \<noteq> nc)"
    and rest: "fin \<longrightarrow> (\<forall>c\<in>set cs. GetNumCols c mem = nc)" by auto
  from Cons.IH [OF rest, of "Suc i" "idx[i := tot]" "tot + GetNumRows c mem"]
  obtain idx' where
    run: "RowStackNode_Validate_loop fin nc mem cs (Suc i) (idx[i := tot], tot + GetNumRows c mem) =
            Returns (idx', tot + GetNumRows c mem + sum_list (map (\<lambda>c. GetNumRows c mem) cs))"
    and len: "length idx' = length idx"
    and later: "\<forall>j<length cs. Suc i + j < length idx \<longrightarrow>
               idx' ! (Suc i + j) = tot + GetNumRows c mem + sum_list (map (\<lambda>c. GetNumRows c mem) (take j cs))"
    and earlier: "\<forall>j<Suc i. idx' ! j = idx[i := tot] ! j"
    by auto
  have "\<forall>j<length (c # cs). i + j < length idx \<longrightarrow>
          idx' ! (i + j) = tot + sum_list (map (\<lambda>c. GetNumRows c mem) (take j (c # cs)))"
  proof (intro allI impI)
    fix j assume j: "j < length (c # cs)" and inb: "i + j < length idx"
    show "idx' ! (i + j) = tot + sum_list (map (\<lambda>c. GetNumRows c mem) (take j (c # cs)))"
    proof (cases j)
      case 0
      with earlier inb show ?thesis by simp
    next
      case (Suc k)
      with later j inb show ?thesis by simp
    qed
  qed
  moreover have "\<forall>j<i. idx' ! j = idx ! j" using earlier by simp
  ultimately show ?case using run len noThrow by (auto simp: add.assoc)
qed



lemma multiple_or_divisor_iff:
  fixes m rows :: nat
  assumes "m \<noteq> 0" "\<not> (m > rows \<and> rows = 0)"
  shows "((m > rows \<and> m mod rows \<noteq> 0) \<or> (m < rows \<and> rows mod m \<noteq> 0))
           \<longleftrightarrow> \<not> rows dvd m \<and> \<not> m dvd rows"
proof (cases "m = rows")
  case True
  then show ?thesis by simp
next
  case False
  show ?thesis
  proof (cases "m > rows")
    case True
    with assms have "rows > 0" by simp
    with True have "\<not> m dvd rows" by (auto dest: dvd_imp_le)
    with True show ?thesis by (auto simp: dvd_eq_mod_eq_0)
  next
    case False
    with \<open>m \<noteq> rows\<close> have lt: "m < rows" by simp
    with assms have "\<not> rows dvd m" by (auto dest: dvd_imp_le)
    with lt show ?thesis by (auto simp: dvd_eq_mod_eq_0)
  qed
qed






lemma RowStackNode_Validate_nonempty:
  assumes "Inputs \<noteq> []"
  shows "RowStackNode_Validate fin node Inputs mem =
     (let node2 = (InferMBLayoutFromInputsForStandardCase node Inputs)
            \<lparr>m_startRowIndices := vector_resize (m_startRowIndices node) (length Inputs)\<rparr>
      in case RowStackNode_Validate_loop fin (GetNumCols (hd Inputs) mem) mem Inputs 0
                (vector_resize (m_startRowIndices node) (length Inputs), 0) of
           Throws e (indices, totalRows) \<Rightarrow> Throws e (node2\<lparr>m_startRowIndices := indices\<rparr>, mem)
         | Returns (indices, totalRows) \<Rightarrow>
             Returns (RowStackNode_InferImageDimsFromInputs (node2\<lparr>m_startRowIndices := indices\<rparr>)
                        (hd Inputs) (Resize node2 totalRows (GetNumCols (hd Inputs) mem) mem),
                      Resize node2 totalRows (GetNumCols (hd Inputs) mem) mem))"
  using assms
  by (cases Inputs)
     (auto simp add: RowStackNode_Validate_def Let_def InferMBLayoutFromInputsForStandardCase_def
        simp del: RowStackNode_Validate_loop.simps split: outcome.splits prod.splits)


lemma InferImageDimensions_returns_cong:
  assumes "m_imageLayout a = m_imageLayout b" "m_numRows a = m_numRows b"
  shows "(\<exists>n. InferImageDimensions a = Returns n) \<longleftrightarrow> (\<exists>n. InferImageDimensions b = Returns n)"
  using assms by (simp add: InferImageDimensions_def Let_def)

lemma ReshapeNode_InferImageDimsFromInputs_returns:
  assumes "\<exists>n. InferImageDimensions node = Returns n"
    and "m_imageLayout node1 = m_imageLayout node" "m_numRows node1 = m_numRows node"
  shows "\<exists>n. ReshapeNode_InferImageDimsFromInputs node1 Inputs0 = Returns n"
proof -
  have "\<exists>n. InferImageDimensions (InferImageDimsFromInput node1 Inputs0) = Returns n"
    using assms InferImageDimensions_returns_cong [of "InferImageDimsFromInput node1 Inputs0" node]
    by (simp add: InferImageDimsFromInput_def)
  then show ?thesis
    by (auto simp: ReshapeNode_InferImageDimsFromInputs_def)
qed

lemma ReshapeNode_Validate_layout_fields:
  assumes "ReshapeNode_Validate_layout NDEBUG node Inputs0 mem = Returns (node1, mem1)"
  shows "m_imageLayout node1 = m_imageLayout node \<and> m_numRows node1 = m_numRows node
         \<and> m_functionValues node1 = m_functionValues node
         \<and> matrices mem1 = matrices mem \<and> layouts mem1 = layouts mem"
  using assms
  by (auto simp: ReshapeNode_Validate_layout_def make_shared_MBLayout_def split: if_splits)

lemma ReshapeNode_Validate_nonfinal_returns:
  assumes "m_numRows node \<noteq> 0"
    and "NDEBUG \<or> HasMBLayout Inputs0 \<or> m_pMBLayout node = None"
    and "\<exists>n. InferImageDimensions node = Returns n"
  shows "\<exists>s. ReshapeNode_Validate NDEBUG False node Inputs0 mem = Returns s"
proof -
  let ?mem1 = "Resize node (m_numRows node) (GetNumCols Inputs0 mem * GetNumRows Inputs0 mem div m_numRows node) mem"
  have "\<exists>node1 mem2. ReshapeNode_Validate_layout NDEBUG node Inputs0 ?mem1 = Returns (node1, mem2)"
    using assms(2)
    by (cases "HasMBLayout Inputs0"; cases "m_pMBLayout node = None"; cases NDEBUG)
       (simp_all add: ReshapeNode_Validate_layout_def make_shared_MBLayout_def)
  then obtain node1 mem2 where
    lay: "ReshapeNode_Validate_layout NDEBUG node Inputs0 ?mem1 = Returns (node1, mem2)"
    by blast
  from ReshapeNode_Validate_layout_fields [OF lay]
  have "m_imageLayout node1 = m_imageLayout node" "m_numRows node1 = m_numRows node" by simp_all
  from ReshapeNode_InferImageDimsFromInputs_returns [OF assms(3) this]
  obtain node2 where "ReshapeNode_InferImageDimsFromInputs node1 Inputs0 = Returns node2" by blast
  with lay assms(1) show ?thesis
    by (simp add: ReshapeNode_Validate_def Let_def)
qed



lemma InferImageDimensions_fields:
  assumes "InferImageDimensions n = Returns n'"
  shows "m_pMBLayout n' = m_pMBLayout n \<and> m_numRows n' = m_numRows n
         \<and> m_functionValues n' = m_functionValues n"
  using assms by (auto simp: InferImageDimensions_def Let_def split: if_splits)

lemma ReshapeNode_InferImageDimsFromInputs_fields:
  assumes "ReshapeNode_InferImageDimsFromInputs n c = Returns n'"
  shows "m_pMBLayout n' = m_pMBLayout n \<and> m_numRows n' = m_numRows n
         \<and> m_functionValues n' = m_functionValues n"
proof -
  from assms obtain n1 where
    inf: "InferImageDimensions (InferImageDimsFromInput n c) = Returns n1"
    and n': "n' = n1\<lparr>m_outputImageLayout := \<lparr>width = 1, height = 1, channels = m_numRows n1\<rparr>\<rparr>
             \<or> n' = n1\<lparr>m_outputImageLayout := m_imageLayout n1\<rparr>"
    by (auto simp: ReshapeNode_InferImageDimsFromInputs_def split: outcome.splits if_splits)
  from InferImageDimensions_fields [OF inf] n' show ?thesis
    by (auto simp: InferImageDimsFromInput_def)
qed

lemma ReshapeNode_Validate_Returns:
  assumes "ReshapeNode_Validate NDEBUG fin node Inputs0 mem = Returns (node', mem')"
  shows "m_numRows node \<noteq> 0
    \<and> (\<exists>node1. ReshapeNode_Validate_layout NDEBUG node Inputs0
           (Resize node (m_numRows node)
              (GetNumCols Inputs0 mem * GetNumRows Inputs0 mem div m_numRows node) mem)
           = Returns (node1, mem')
         \<and> ReshapeNode_InferImageDimsFromInputs node1 Inputs0 = Returns node')"
  using assms
  by (auto simp: ReshapeNode_Validate_def Let_def split: if_splits outcome.splits prod.splits)




section \<open>Forward evaluation of RowRepeat\<close>



section \<open>Offsets and forward evaluation of RowStack\<close>

lemma AssignToRowSliceValuesOf_Some:
  assumes "numRows a = n" "s + n \<le> numRows this" "numCols a = numCols this"
  shows "AssignToRowSliceValuesOf this a s n =
     Some (tabulate (numRows this) (numCols this)
             (\<lambda>i j. if s \<le> i \<and> i < s + n then elem a (i - s) j else elem this i j))"
  using assms by (simp add: AssignToRowSliceValuesOf_def)

lemma EvaluateThisNode_loop_correct:
  fixes node :: RowStackNode
  assumes "\<forall>c\<in>set cs. FunctionValues c \<noteq> FunctionValues node"
    and "\<forall>c\<in>set cs. GetNumCols c mem = numCols (matrices mem (FunctionValues node))"
    and "\<forall>k<length cs. i + k < length (m_startRowIndices node) \<and>
           m_startRowIndices node ! (i + k) = off + sum_list (map (\<lambda>c. GetNumRows c mem) (take k cs))"
    and "off + sum_list (map (\<lambda>c. GetNumRows c mem) cs) \<le> numRows (matrices mem (FunctionValues node))"
  shows "\<exists>mem'. RowStackNode_EvaluateThisNode_loop node cs i mem = Returns mem'
      \<and> (\<forall>a. a \<noteq> FunctionValues node \<longrightarrow> matrices mem' a = matrices mem a)
      \<and> numRows (matrices mem' (FunctionValues node)) = numRows (matrices mem (FunctionValues node))
      \<and> numCols (matrices mem' (FunctionValues node)) = numCols (matrices mem (FunctionValues node))
      \<and> (\<forall>r j. r < off \<and> j < numCols (matrices mem (FunctionValues node)) \<longrightarrow>
            elem (matrices mem' (FunctionValues node)) r j = elem (matrices mem (FunctionValues node)) r j)
      \<and> (\<forall>k r j. k < length cs \<and> r < GetNumRows (cs ! k) mem
              \<and> j < numCols (matrices mem (FunctionValues node)) \<longrightarrow>
            elem (matrices mem' (FunctionValues node)) (m_startRowIndices node ! (i + k) + r) j
              = elem (matrices mem (FunctionValues (cs ! k))) r j)"
  using assms
proof (induction cs arbitrary: i off mem)
  case Nil
  then show ?case by simp
next
  case (Cons c cs)
  let ?own = "FunctionValues node"
  let ?M = "matrices mem ?own"
  let ?A = "matrices mem (FunctionValues c)"
  let ?n = "GetNumRows c mem"
  let ?v = "tabulate (numRows ?M) (numCols ?M)
             (\<lambda>r j. if off \<le> r \<and> r < off + ?n then elem ?A (r - off) j else elem ?M r j)"
  let ?mem1 = "mem\<lparr>matrices := (matrices mem)(?own := ?v)\<rparr>"
  from Cons.prems(3) have i_ok: "i < length (m_startRowIndices node)"
    and start: "m_startRowIndices node ! i = off"
    by force+
  from Cons.prems(4) have fits: "off + ?n \<le> numRows ?M" by simp
  from Cons.prems(2) have cols_c: "numCols ?A = numCols ?M" by (simp add: GetNumCols_def)
  have assign: "AssignToRowSliceValuesOf ?M ?A off ?n = Some ?v"
    using fits cols_c by (intro AssignToRowSliceValuesOf_Some) (simp_all add: GetNumRows_def)
  have step: "RowStackNode_EvaluateThisNode_loop node (c # cs) i mem
      = RowStackNode_EvaluateThisNode_loop node cs (Suc i) ?mem1"
    using i_ok assign start by simp
  have other: "FunctionValues c' \<noteq> ?own" if "c' \<in> set (c # cs)" for c'
    using Cons.prems(1) that by blast
  have same_rows: "GetNumRows c' ?mem1 = GetNumRows c' mem"
    and same_cols: "GetNumCols c' ?mem1 = GetNumCols c' mem"
    and same_mat: "matrices ?mem1 (FunctionValues c') = matrices mem (FunctionValues c')"
    if "c' \<in> set (c # cs)" for c'
    using other [OF that] by (simp_all add: GetNumRows_def GetNumCols_def)
  have own1: "matrices ?mem1 ?own = ?v" by simp
  have p1: "\<forall>c\<in>set cs. FunctionValues c \<noteq> ?own" using Cons.prems(1) by simp
  have p2: "\<forall>c'\<in>set cs. GetNumCols c' ?mem1 = numCols (matrices ?mem1 ?own)"
    using Cons.prems(2) same_cols by (simp add: own1)
  have map_rows: "map (\<lambda>c. GetNumRows c ?mem1) xs = map (\<lambda>c. GetNumRows c mem) xs"
    if "set xs \<subseteq> set cs" for xs
    using that same_rows by (intro map_cong) auto
  have p3: "\<forall>k<length cs. Suc i + k < length (m_startRowIndices node) \<and>
           m_startRowIndices node ! (Suc i + k)
             = (off + ?n) + sum_list (map (\<lambda>c. GetNumRows c ?mem1) (take k cs))"
  proof (intro allI impI)
    fix k assume k: "k < length cs"
    then have "Suc k < length (c # cs)" by simp
    with Cons.prems(3) have "i + Suc k < length (m_startRowIndices node)"
      and "m_startRowIndices node ! (i + Suc k)
             = off + sum_list (map (\<lambda>c. GetNumRows c mem) (take (Suc k) (c # cs)))"
      by blast+
    moreover have "set (take k cs) \<subseteq> set cs" by (rule set_take_subset)
    ultimately show "Suc i + k < length (m_startRowIndices node) \<and>
           m_startRowIndices node ! (Suc i + k)
             = (off + ?n) + sum_list (map (\<lambda>c. GetNumRows c ?mem1) (take k cs))"
      by (simp add: map_rows add.assoc)
  qed
  have p4: "(off + ?n) + sum_list (map (\<lambda>c. GetNumRows c ?mem1) cs) \<le> numRows (matrices ?mem1 ?own)"
    using Cons.prems(4) by (simp add: own1 map_rows add.assoc)
  from Cons.IH [OF p1 p2 p3 p4]
  obtain mem' where
    run: "RowStackNode_EvaluateThisNode_loop node cs (Suc i) ?mem1 = Returns mem'"
    and frame: "\<forall>a. a \<noteq> ?own \<longrightarrow> matrices mem' a = matrices ?mem1 a"
    and nr: "numRows (matrices mem' ?own) = numRows (matrices ?mem1 ?own)"
    and nc: "numCols (matrices mem' ?own) = numCols (matrices ?mem1 ?own)"
    and below: "\<forall>r j. r < off + ?n \<and> j < numCols (matrices ?mem1 ?own) \<longrightarrow>
            elem (matrices mem' ?own) r j = elem (matrices ?mem1 ?own) r j"
    and rest: "\<forall>k r j. k < length cs \<and> r < GetNumRows (cs ! k) ?mem1
              \<and> j < numCols (matrices ?mem1 ?own) \<longrightarrow>
            elem (matrices mem' ?own) (m_startRowIndices node ! (Suc i + k) + r) j
              = elem (matrices ?mem1 (FunctionValues (cs ! k))) r j"
    by blast
  have c1: "\<forall>a. a \<noteq> ?own \<longrightarrow> matrices mem' a = matrices mem a"
    using frame by simp
  have c2: "numRows (matrices mem' ?own) = numRows ?M" "numCols (matrices mem' ?own) = numCols ?M"
    using nr nc by (simp_all add: own1)
  have c3: "elem (matrices mem' ?own) r j = elem ?M r j" if "r < off" "j < numCols ?M" for r j
  proof -
    from that fits have "r < numRows ?M" by simp
    with that below show ?thesis by (simp add: own1)
  qed
  have c4: "elem (matrices mem' ?own) (m_startRowIndices node ! (i + k) + r) j
              = elem (matrices mem (FunctionValues ((c # cs) ! k))) r j"
    if "k < length (c # cs)" "r < GetNumRows ((c # cs) ! k) mem" "j < numCols ?M" for k r j
  proof (cases k)
    case 0
    with that have r: "r < ?n" by simp
    with fits have inr: "off + r < numRows ?M" by simp
    from r that(3) below have "elem (matrices mem' ?own) (off + r) j = elem ?v (off + r) j"
      by (simp add: own1)
    also have "\<dots> = elem ?A r j" using inr that(3) r by simp
    finally show ?thesis using 0 start by simp
  next
    case (Suc k')
    with that have k': "k' < length cs" by simp
    then have mem_k: "cs ! k' \<in> set (c # cs)" by simp
    from that Suc have "r < GetNumRows (cs ! k') ?mem1"
      using same_rows [OF mem_k] by simp
    with rest k' that(3) have "elem (matrices mem' ?own) (m_startRowIndices node ! (Suc i + k') + r) j
              = elem (matrices ?mem1 (FunctionValues (cs ! k'))) r j"
      by (simp add: own1)
    then show ?thesis using Suc same_mat [OF mem_k] by simp
  qed
  show ?case
    unfolding step using run c1 c2 c3 c4 by blast
qed

lemma RowStackNode_InferImageDimsFromInputs_fields:
  "m_startRowIndices (RowStackNode_InferImageDimsFromInputs node c mem) = m_startRowIndices node"
  "m_functionValues (RowStackNode_InferImageDimsFromInputs node c mem) = m_functionValues node"
  by (simp_all add: RowStackNode_InferImageDimsFromInputs_def Let_def InferImageDimsFromInput_def)

text \<open>
  C5. RowStack with at least one input, all inputs sharing one column count, none of them
  stored in the node's own buffer. Every call of \<open>Validate\<close>, whatever the offset table
  held before, returns with the table of running sums in input order
  (\<open>offset_i = r_0 + ... + r_(i-1)\<close>, \<open>offset_0 = 0\<close>) and with the output resized to
  \<open>r_0 + ... + r_(N-1)\<close> rows and the common column count. Forward evaluation then
  returns, and rows \<open>[offset_i, offset_i + r_i)\<close> of the output equal input \<open>i\<close>; the
  inputs are left as they were. For the row counts (2, 3, 1) the table is [0, 2, 5] and
  the output has 6 rows.
\<close>

theorem RowStackNode_offsets_and_forward:
  assumes "Inputs \<noteq> []"
    and "\<forall>c\<in>set Inputs. GetNumCols c mem = GetNumCols (hd Inputs) mem"
    and "\<forall>c\<in>set Inputs. FunctionValues c \<noteq> m_functionValues node"
  shows "\<exists>node' mem' mem''.
      RowStackNode_Validate fin node Inputs mem = Returns (node', mem')
    \<and> m_startRowIndices node'
        = map (\<lambda>i. sum_list (map (\<lambda>c. GetNumRows c mem) (take i Inputs))) [0..<length Inputs]
    \<and> numRows (matrices mem' (FunctionValues node')) = sum_list (map (\<lambda>c. GetNumRows c mem) Inputs)
    \<and> numCols (matrices mem' (FunctionValues node')) = GetNumCols (hd Inputs) mem
    \<and> RowStackNode_EvaluateThisNode node' Inputs mem' = Returns mem''
    \<and> numRows (matrices mem'' (FunctionValues node')) = sum_list (map (\<lambda>c. GetNumRows c mem) Inputs)
    \<and> numCols (matrices mem'' (FunctionValues node')) = GetNumCols (hd Inputs) mem
    \<and> (\<forall>i r j. i < length Inputs \<and> r < GetNumRows (Inputs ! i) mem \<and> j < GetNumCols (hd Inputs) mem \<longrightarrow>
          elem (matrices mem'' (FunctionValues node')) (m_startRowIndices node' ! i + r) j
            = elem (matrices mem (FunctionValues (Inputs ! i))) r j)
    \<and> (\<forall>c\<in>set Inputs. matrices mem'' (FunctionValues c) = matrices mem (FunctionValues c))"
proof -
  let ?rows = "\<lambda>c. GetNumRows c mem"
  let ?cols = "GetNumCols (hd Inputs) mem"
  let ?N = "length Inputs"
  let ?total = "sum_list (map ?rows Inputs)"
  define idx0 where "idx0 = vector_resize (m_startRowIndices node) ?N"
  define node2 where
    "node2 = (InferMBLayoutFromInputsForStandardCase node Inputs)\<lparr>m_startRowIndices := idx0\<rparr>"
  define mem' where "mem' = Resize node2 ?total ?cols mem"
  have len0: "length idx0 = ?N" by (simp add: idx0_def vector_resize_def)
  have "fin \<longrightarrow> (\<forall>c\<in>set Inputs. GetNumCols c mem = ?cols)" using assms(2) by simp
  from Validate_loop_returns [OF this, of 0 idx0 0]
  obtain idx where
    loop: "RowStackNode_Validate_loop fin ?cols mem Inputs 0 (idx0, 0) = Returns (idx, ?total)"
    and len: "length idx = ?N"
    and entries: "\<forall>j<?N. idx ! j = sum_list (map ?rows (take j Inputs))"
    by (auto simp: len0)
  define node' where
    "node' = RowStackNode_InferImageDimsFromInputs (node2\<lparr>m_startRowIndices := idx\<rparr>) (hd Inputs) mem'"
  have val: "RowStackNode_Validate fin node Inputs mem = Returns (node', mem')"
    using loop
    by (simp add: RowStackNode_Validate_nonempty [OF assms(1)] Let_def node'_def mem'_def node2_def idx0_def)
  have own2: "m_functionValues node2 = m_functionValues node"
    by (simp add: node2_def InferMBLayoutFromInputsForStandardCase_def)
  have own: "FunctionValues node' = m_functionValues node"
    and idx': "m_startRowIndices node' = idx"
    by (simp_all add: node'_def RowStackNode_InferImageDimsFromInputs_fields FunctionValues_def own2)
  have offsets: "idx = map (\<lambda>i. sum_list (map ?rows (take i Inputs))) [0..<?N]"
    using len entries by (intro nth_equalityI) simp_all
  have out': "matrices mem' (m_functionValues node) = Matrix_Resize ?total ?cols"
    by (simp add: mem'_def matrices_Resize own2)
  have dims': "numRows (matrices mem' (m_functionValues node)) = ?total"
    "numCols (matrices mem' (m_functionValues node)) = ?cols"
    by (simp_all add: out' Matrix_Resize_def)
  have in': "matrices mem' (FunctionValues c) = matrices mem (FunctionValues c)"
    if "c \<in> set Inputs" for c
    using assms(3) that by (simp add: mem'_def matrices_Resize own2)
  have rows': "GetNumRows c mem' = GetNumRows c mem" and cols': "GetNumCols c mem' = GetNumCols c mem"
    if "c \<in> set Inputs" for c
    using in' [OF that] by (simp_all add: GetNumRows_def GetNumCols_def)
  have map_rows: "map (\<lambda>c. GetNumRows c mem') xs = map ?rows xs" if "set xs \<subseteq> set Inputs" for xs
    using that rows' by (intro map_cong) auto
  have q1: "\<forall>c\<in>set Inputs. FunctionValues c \<noteq> FunctionValues node'"
    using assms(3) by (simp add: own)
  have q2: "\<forall>c\<in>set Inputs. GetNumCols c mem' = numCols (matrices mem' (FunctionValues node'))"
    using assms(2) cols' by (simp add: own dims')
  have q3: "\<forall>k<?N. 0 + k < length (m_startRowIndices node') \<and>
           m_startRowIndices node' ! (0 + k) = 0 + sum_list (map (\<lambda>c. GetNumRows c mem') (take k Inputs))"
    using len entries by (simp add: idx' map_rows set_take_subset)
  have q4: "0 + sum_list (map (\<lambda>c. GetNumRows c mem') Inputs) \<le> numRows (matrices mem' (FunctionValues node'))"
    by (simp add: own dims' map_rows)
  from EvaluateThisNode_loop_correct [OF q1 q2 q3 q4]
  obtain mem'' where
    run: "RowStackNode_EvaluateThisNode_loop node' Inputs 0 mem' = Returns mem''"
    and frame: "\<forall>a. a \<noteq> FunctionValues node' \<longrightarrow> matrices mem'' a = matrices mem' a"
    and nr: "numRows (matrices mem'' (FunctionValues node')) = numRows (matrices mem' (FunctionValues node'))"
    and nc: "numCols (matrices mem'' (FunctionValues node')) = numCols (matrices mem' (FunctionValues node'))"
    and written: "\<forall>k r j. k < ?N \<and> r < GetNumRows (Inputs ! k) mem'
              \<and> j < numCols (matrices mem' (FunctionValues node')) \<longrightarrow>
            elem (matrices mem'' (FunctionValues node')) (m_startRowIndices node' ! (0 + k) + r) j
              = elem (matrices mem' (FunctionValues (Inputs ! k))) r j"
    by blast
  have r1: "RowStackNode_EvaluateThisNode node' Inputs mem' = Returns mem''"
    using run by (simp add: RowStackNode_EvaluateThisNode_def)
  have r2: "numRows (matrices mem'' (FunctionValues node')) = ?total"
    "numCols (matrices mem'' (FunctionValues node')) = ?cols"
    using nr nc by (simp_all add: own dims')
  have r3: "elem (matrices mem'' (FunctionValues node')) (m_startRowIndices node' ! i + r) j
            = elem (matrices mem (FunctionValues (Inputs ! i))) r j"
    if "i < ?N" "r < GetNumRows (Inputs ! i) mem" "j < ?cols" for i r j
  proof -
    from that(1) have m: "Inputs ! i \<in> set Inputs" by simp
    from that written rows' [OF m] have
      "elem (matrices mem'' (FunctionValues node')) (m_startRowIndices node' ! (0 + i) + r) j
              = elem (matrices mem' (FunctionValues (Inputs ! i))) r j"
      by (simp add: own dims')
    then show ?thesis using in' [OF m] by simp
  qed
  have r4: "\<forall>c\<in>set Inputs. matrices mem'' (FunctionValues c) = matrices mem (FunctionValues c)"
    using frame q1 in' by simp
  have d1: "numRows (matrices mem' (FunctionValues node')) = ?total"
    "numCols (matrices mem' (FunctionValues node')) = ?cols"
    by (simp_all add: own dims')
  have off': "m_startRowIndices node' = map (\<lambda>i. sum_list (map ?rows (take i Inputs))) [0..<?N]"
    using offsets idx' by simp
  from val off' d1 r1 r2 r3 r4 show ?thesis by blast
qed

theorem RowStackNode_offsets_and_forward_witness:
  "(\<exists>node' mem' mem''.
      RowStackNode_Validate True example_stack
        [new_ComputationNode ''a'' 3 23, new_ComputationNode ''b'' 4 24, new_ComputationNode ''c'' 5 25]
        example_memory = Returns (node', mem')
    \<and> m_startRowIndices node' = [0, 2, 5]
    \<and> numRows (matrices mem' (FunctionValues node')) = 6
    \<and> numCols (matrices mem' (FunctionValues node')) = 2
    \<and> RowStackNode_EvaluateThisNode node'
        [new_ComputationNode ''a'' 3 23, new_ComputationNode ''b'' 4 24, new_ComputationNode ''c'' 5 25]
        mem' = Returns mem''
    \<and> elem (matrices mem'' (FunctionValues node')) 0 0 = 11
    \<and> elem (matrices mem'' (FunctionValues node')) 1 1 = 14
    \<and> elem (matrices mem'' (FunctionValues node')) 2 0 = 21
    \<and> elem (matrices mem'' (FunctionValues node')) 4 1 = 26
    \<and> elem (matrices mem'' (FunctionValues node')) 5 1 = 32)"
proof -
  let ?a = "new_ComputationNode ''a'' 3 23" and ?b = "new_ComputationNode ''b'' 4 24"
    and ?c = "new_ComputationNode ''c'' 5 25"
  let ?Inputs = "[?a, ?b, ?c]"
  have rows: "GetNumRows ?a example_memory = 2" "GetNumRows ?b example_memory = 3"
      "GetNumRows ?c example_memory = 1"
    and cols: "GetNumCols ?a example_memory = 2" "GetNumCols ?b example_memory = 2"
      "GetNumCols ?c example_memory = 2"
    and vals: "elem (matrices example_memory (FunctionValues ?a)) 0 0 = 11"
      "elem (matrices example_memory (FunctionValues ?a)) (Suc 0) (Suc 0) = 14"
      "elem (matrices example_memory (FunctionValues ?b)) 0 0 = 21"
      "elem (matrices example_memory (FunctionValues ?b)) 2 (Suc 0) = 26"
      "elem (matrices example_memory (FunctionValues ?c)) 0 (Suc 0) = 32"
    and own: "FunctionValues ?a \<noteq> m_functionValues example_stack"
      "FunctionValues ?b \<noteq> m_functionValues example_stack"
      "FunctionValues ?c \<noteq> m_functionValues example_stack"
    by (simp_all add: example_memory_def example_stack_def new_ComputationNode_def GetNumRows_def
        GetNumCols_def FunctionValues_def elem_def RowStackNode.defs ComputationNode.defs)
  have h1: "?Inputs \<noteq> []" by simp
  have h2: "\<forall>c\<in>set ?Inputs. GetNumCols c example_memory = GetNumCols (hd ?Inputs) example_memory"
    by (simp add: cols)
  have h3: "\<forall>c\<in>set ?Inputs. FunctionValues c \<noteq> m_functionValues example_stack"
    by (simp add: own)
  have upt3: "[0..<3] = [0, 1, 2]" by (simp add: upt_rec)
  from RowStackNode_offsets_and_forward [OF h1 h2 h3, of True]
  obtain node' mem' mem'' where
    run: "RowStackNode_Validate True example_stack ?Inputs example_memory = Returns (node', mem')"
      "RowStackNode_EvaluateThisNode node' ?Inputs mem' = Returns mem''"
    and offsets: "m_startRowIndices node' = [0, 2, 5]"
    and dims: "numRows (matrices mem' (FunctionValues node')) = 6"
      "numCols (matrices mem' (FunctionValues node')) = 2"
    and written: "\<forall>i r j. i < 3 \<and> r < GetNumRows (?Inputs ! i) example_memory \<and> j < 2 \<longrightarrow>
          elem (matrices mem'' (FunctionValues node')) (m_startRowIndices node' ! i + r) j
            = elem (matrices example_memory (FunctionValues (?Inputs ! i))) r j"
    by (auto simp: rows cols upt3)
  have e1: "elem (matrices mem'' (FunctionValues node')) 0 0 = 11"
    using written [rule_format, of 0 0 0] by (simp add: rows offsets vals)
  have e2: "elem (matrices mem'' (FunctionValues node')) 1 1 = 14"
    using written [rule_format, of 0 1 1] by (simp add: rows offsets vals)
  have e3: "elem (matrices mem'' (FunctionValues node')) 2 0 = 21"
    using written [rule_format, of 1 0 0] by (simp add: rows offsets vals)
  have e4: "elem (matrices mem'' (FunctionValues node')) 4 1 = 26"
    using written [rule_format, of 1 2 1] by (simp add: rows offsets vals)
  have e5: "elem (matrices mem'' (FunctionValues node')) 5 1 = 32"
    using written [rule_format, of 2 0 1] by (simp add: rows offsets vals)
  from run offsets dims e1 e2 e3 e4 e5 show ?thesis by blast
qed

section \<open>Gradient passes\<close>

lemma foldl_plus_sum_list:
  fixes x :: "'a::monoid_add"
  shows "foldl (+) x xs = x + sum_list xs"
  by (induction xs arbitrary: x) (simp_all add: add.assoc)

text \<open>
  C6. The three implemented gradient passes add into the gradient buffer of the input and
  write nothing else; in each case the dimensions are assumed to fit, as they do after
  validation, and then the pass returns.
  \<^item> RowSlice: rows \<open>[startIndex, startIndex + numRows)\<close> of the input gradient become their
    old value plus the output gradient; the other rows keep their value.
  \<^item> RowStack, for input \<open>inputIndex\<close>: every element of that input's gradient becomes its
    old value plus the element of the output gradient in rows
    \<open>[offset, offset + rows)\<close>.
  \<^item> RowRepeat: every element of the input gradient becomes its old value plus the sum of
    the \<open>repeatCount\<close> copies of its row in the output gradient.
  In all three every buffer other than the written input gradient, the gradients of the
  other inputs among them, is unchanged.
\<close>

theorem gradient_passes_accumulate:
  fixes smem kmem rmem :: "'a::monoid_add Memory"
  shows
  "(numRows (matrices smem (GradientValues snode)) = m_numRows_RowSlice snode
    \<and> m_startIndex snode + m_numRows_RowSlice snode \<le> numRows (matrices smem (GradientValues sInput))
    \<and> numCols (matrices smem (GradientValues snode)) = numCols (matrices smem (GradientValues sInput))
    \<longrightarrow>
    (\<exists>mem'. RowSliceNode_ComputeInputPartial snode sInput smem = Returns mem'
      \<and> (\<forall>a. a \<noteq> GradientValues sInput \<longrightarrow> matrices mem' a = matrices smem a)
      \<and> numRows (matrices mem' (GradientValues sInput)) = numRows (matrices smem (GradientValues sInput))
      \<and> numCols (matrices mem' (GradientValues sInput)) = numCols (matrices smem (GradientValues sInput))
      \<and> (\<forall>i j. i < numRows (matrices smem (GradientValues sInput))
               \<and> j < numCols (matrices smem (GradientValues sInput)) \<longrightarrow>
            elem (matrices mem' (GradientValues sInput)) i j =
              (if m_startIndex snode \<le> i \<and> i < m_startIndex snode + m_numRows_RowSlice snode
               then elem (matrices smem (GradientValues sInput)) i j
                    + elem (matrices smem (GradientValues snode)) (i - m_startIndex snode) j
               else elem (matrices smem (GradientValues sInput)) i j))))
   \<and>
   (inputIndex < length Inputs \<and> inputIndex < length (m_startRowIndices knode)
    \<and> numRows (matrices kmem (GradientValues (Inputs ! inputIndex))) = GetNumRows (Inputs ! inputIndex) kmem
    \<and> m_startRowIndices knode ! inputIndex + GetNumRows (Inputs ! inputIndex) kmem
           \<le> numRows (matrices kmem (GradientValues knode))
    \<and> numCols (matrices kmem (GradientValues knode))
           = numCols (matrices kmem (GradientValues (Inputs ! inputIndex)))
    \<longrightarrow>
    (\<exists>mem'. RowStackNode_ComputeInputPartial knode Inputs inputIndex kmem = Returns mem'
      \<and> (\<forall>a. a \<noteq> GradientValues (Inputs ! inputIndex) \<longrightarrow> matrices mem' a = matrices kmem a)
      \<and> numRows (matrices mem' (GradientValues (Inputs ! inputIndex)))
           = numRows (matrices kmem (GradientValues (Inputs ! inputIndex)))
      \<and> numCols (matrices mem' (GradientValues (Inputs ! inputIndex)))
           = numCols (matrices kmem (GradientValues (Inputs ! inputIndex)))
      \<and> (\<forall>r j. r < GetNumRows (Inputs ! inputIndex) kmem
               \<and> j < numCols (matrices kmem (GradientValues (Inputs ! inputIndex))) \<longrightarrow>
            elem (matrices mem' (GradientValues (Inputs ! inputIndex))) r j =
              elem (matrices kmem (GradientValues (Inputs ! inputIndex))) r j
              + elem (matrices kmem (GradientValues knode)) (m_startRowIndices knode ! inputIndex + r) j)))
   \<and>
   (numRows (matrices rmem (GradientValues rnode))
       = numRows (matrices rmem (GradientValues rInput)) * m_numRepeat rnode
    \<and> numCols (matrices rmem (GradientValues rnode)) = numCols (matrices rmem (GradientValues rInput))
    \<longrightarrow>
    (\<exists>mem'. RowRepeatNode_ComputeInputPartial rnode rInput rmem = Returns mem'
      \<and> (\<forall>a. a \<noteq> GradientValues rInput \<longrightarrow> matrices mem' a = matrices rmem a)
      \<and> numRows (matrices mem' (GradientValues rInput)) = numRows (matrices rmem (GradientValues rInput))
      \<and> numCols (matrices mem' (GradientValues rInput)) = numCols (matrices rmem (GradientValues rInput))
      \<and> (\<forall>i j. i < numRows (matrices rmem (GradientValues rInput))
               \<and> j < numCols (matrices rmem (GradientValues rInput)) \<longrightarrow>
            elem (matrices mem' (GradientValues rInput)) i j =
              elem (matrices rmem (GradientValues rInput)) i j
              + sum_list (map (\<lambda>k. elem (matrices rmem (GradientValues rnode))
                                     (k * numRows (matrices rmem (GradientValues rInput)) + i) j)
                            [0..<m_numRepeat rnode]))))"
proof (intro conjI impI)
  assume "numRows (matrices smem (GradientValues snode)) = m_numRows_RowSlice snode
    \<and> m_startIndex snode + m_numRows_RowSlice snode \<le> numRows (matrices smem (GradientValues sInput))
    \<and> numCols (matrices smem (GradientValues snode)) = numCols (matrices smem (GradientValues sInput))"
  then show "\<exists>mem'. RowSliceNode_ComputeInputPartial snode sInput smem = Returns mem'
      \<and> (\<forall>a. a \<noteq> GradientValues sInput \<longrightarrow> matrices mem' a = matrices smem a)
      \<and> numRows (matrices mem' (GradientValues sInput)) = numRows (matrices smem (GradientValues sInput))
      \<and> numCols (matrices mem' (GradientValues sInput)) = numCols (matrices smem (GradientValues sInput))
      \<and> (\<forall>i j. i < numRows (matrices smem (GradientValues sInput))
               \<and> j < numCols (matrices smem (GradientValues sInput)) \<longrightarrow>
            elem (matrices mem' (GradientValues sInput)) i j =
              (if m_startIndex snode \<le> i \<and> i < m_startIndex snode + m_numRows_RowSlice snode
               then elem (matrices smem (GradientValues sInput)) i j
                    + elem (matrices smem (GradientValues snode)) (i - m_startIndex snode) j
               else elem (matrices smem (GradientValues sInput)) i j))"
    by (simp add: RowSliceNode_ComputeInputPartial_def AddToRowSliceValuesOf_def)
next
  assume "inputIndex < length Inputs \<and> inputIndex < length (m_startRowIndices knode)
    \<and> numRows (matrices kmem (GradientValues (Inputs ! inputIndex))) = GetNumRows (Inputs ! inputIndex) kmem
    \<and> m_startRowIndices knode ! inputIndex + GetNumRows (Inputs ! inputIndex) kmem
           \<le> numRows (matrices kmem (GradientValues knode))
    \<and> numCols (matrices kmem (GradientValues knode))
           = numCols (matrices kmem (GradientValues (Inputs ! inputIndex)))"
  then show "\<exists>mem'. RowStackNode_ComputeInputPartial knode Inputs inputIndex kmem = Returns mem'
      \<and> (\<forall>a. a \<noteq> GradientValues (Inputs ! inputIndex) \<longrightarrow> matrices mem' a = matrices kmem a)
      \<and> numRows (matrices mem' (GradientValues (Inputs ! inputIndex)))
           = numRows (matrices kmem (GradientValues (Inputs ! inputIndex)))
      \<and> numCols (matrices mem' (GradientValues (Inputs ! inputIndex)))
           = numCols (matrices kmem (GradientValues (Inputs ! inputIndex)))
      \<and> (\<forall>r j. r < GetNumRows (Inputs ! inputIndex) kmem
               \<and> j < numCols (matrices kmem (GradientValues (Inputs ! inputIndex))) \<longrightarrow>
            elem (matrices mem' (GradientValues (Inputs ! inputIndex))) r j =
              elem (matrices kmem (GradientValues (Inputs ! inputIndex))) r j
              + elem (matrices kmem (GradientValues knode)) (m_startRowIndices knode ! inputIndex + r) j)"
    by (simp add: RowStackNode_ComputeInputPartial_def AddWithRowSliceValuesOf_def)
next
  assume "numRows (matrices rmem (GradientValues rnode))
       = numRows (matrices rmem (GradientValues rInput)) * m_numRepeat rnode
    \<and> numCols (matrices rmem (GradientValues rnode)) = numCols (matrices rmem (GradientValues rInput))"
  then show "\<exists>mem'. RowRepeatNode_ComputeInputPartial rnode rInput rmem = Returns mem'
      \<and> (\<forall>a. a \<noteq> GradientValues rInput \<longrightarrow> matrices mem' a = matrices rmem a)
      \<and> numRows (matrices mem' (GradientValues rInput)) = numRows (matrices rmem (GradientValues rInput))
      \<and> numCols (matrices mem' (GradientValues rInput)) = numCols (matrices rmem (GradientValues rInput))
      \<and> (\<forall>i j. i < numRows (matrices rmem (GradientValues rInput))
               \<and> j < numCols (matrices rmem (GradientValues rInput)) \<longrightarrow>
            elem (matrices mem' (GradientValues rInput)) i j =
              elem (matrices rmem (GradientValues rInput)) i j
              + sum_list (map (\<lambda>k. elem (matrices rmem (GradientValues rnode))
                                     (k * numRows (matrices rmem (GradientValues rInput)) + i) j)
                            [0..<m_numRepeat rnode]))"
    by (simp add: RowRepeatNode_ComputeInputPartial_def AddToRowRepeatValuesOf_def foldl_plus_sum_list)
qed

theorem gradient_passes_accumulate_witness:
  "(\<exists>mem'. RowSliceNode_ComputeInputPartial example_slice (new_ComputationNode ''b'' 4 24) example_memory
        = Returns mem'
      \<and> elem (matrices mem' 24) 2 0 = 23
      \<and> elem (matrices mem' 24) 0 0 = 1
      \<and> matrices mem' 13 = matrices example_memory 13)
   \<and> (\<exists>mem'. RowStackNode_ComputeInputPartial example_stack_validated
          [new_ComputationNode ''a'' 3 23, new_ComputationNode ''b'' 4 24, new_ComputationNode ''c'' 5 25]
          2 example_memory = Returns mem'
      \<and> elem (matrices mem' 25) 0 0 = 113
      \<and> matrices mem' 24 = matrices example_memory 24
      \<and> matrices mem' 15 = matrices example_memory 15)
   \<and> (\<exists>mem'. RowRepeatNode_ComputeInputPartial example_repeat (new_ComputationNode ''x'' 0 20) example_memory
        = Returns mem'
      \<and> elem (matrices mem' 20) 0 0 = 10
      \<and> matrices mem' 17 = matrices example_memory 17)"
proof -
  let ?a = "new_ComputationNode ''a'' 3 23" and ?b = "new_ComputationNode ''b'' 4 24"
    and ?c = "new_ComputationNode ''c'' 5 25" and ?x = "new_ComputationNode ''x'' 0 20"
  let ?Inputs = "[?a, ?b, ?c]"
  note T = gradient_passes_accumulate [of example_memory example_slice ?b 2 ?Inputs
      example_stack_validated example_memory example_memory example_repeat ?x]
  have grads: "GradientValues ?b = 24" "GradientValues ?c = 25" "GradientValues ?x = 20"
      "GradientValues example_slice = 13" "GradientValues example_stack_validated = 15"
      "GradientValues example_repeat = 17"
    and cfg: "m_startIndex example_slice = 1" "m_numRows_RowSlice example_slice = 2"
      "m_startRowIndices example_stack_validated = [0, 2, 5]" "m_numRepeat example_repeat = 3"
    by (simp_all add: GradientValues_def new_ComputationNode_def example_slice_def
        example_stack_validated_def example_repeat_def RowSliceNode.defs RowStackNode.defs
        RowRepeatNode.defs ComputationNode.defs)
  have mats: "matrices example_memory 24 = \<lparr>numRows = 3, numCols = 2, elems = [1, 2, 3, 4, 5, 6]\<rparr>"
      "matrices example_memory 13 = \<lparr>numRows = 2, numCols = 2, elems = [10, 20, 30, 40]\<rparr>"
      "matrices example_memory 25 = \<lparr>numRows = 1, numCols = 2, elems = [7, 8]\<rparr>"
      "matrices example_memory 15 = \<lparr>numRows = 6, numCols = 2,
         elems = [101, 102, 103, 104, 105, 106, 107, 108, 109, 110, 111, 112]\<rparr>"
      "matrices example_memory 20 = \<lparr>numRows = 2, numCols = 3, elems = [1, 2, 3, 4, 5, 6]\<rparr>"
      "matrices example_memory 17 = \<lparr>numRows = 6, numCols = 3,
         elems = [1, 2, 3, 4, 5, 6, 7, 8, 9, 10, 11, 12, 13, 14, 15, 16, 17, 18]\<rparr>"
    and rows_c: "GetNumRows ?c example_memory = 1"
    by (simp_all add: example_memory_def GetNumRows_def FunctionValues_def new_ComputationNode_def)
  have upt3: "[0..<3] = [0, 1, 2]" by (simp add: upt_rec)
  from T [THEN conjunct1] obtain mem1 where
    s1: "RowSliceNode_ComputeInputPartial example_slice ?b example_memory = Returns mem1"
    and s2: "\<forall>a. a \<noteq> 24 \<longrightarrow> matrices mem1 a = matrices example_memory a"
    and s3: "\<forall>i j. i < 3 \<and> j < 2 \<longrightarrow>
            elem (matrices mem1 24) i j =
              (if 1 \<le> i \<and> i < 3
               then elem (matrices example_memory 24) i j + elem (matrices example_memory 13) (i - 1) j
               else elem (matrices example_memory 24) i j)"
    by (auto simp: grads cfg mats)
  from T [THEN conjunct2, THEN conjunct1] obtain mem2 where
    k1: "RowStackNode_ComputeInputPartial example_stack_validated ?Inputs 2 example_memory = Returns mem2"
    and k2: "\<forall>a. a \<noteq> 25 \<longrightarrow> matrices mem2 a = matrices example_memory a"
    and k3: "\<forall>r j. r < 1 \<and> j < 2 \<longrightarrow>
            elem (matrices mem2 25) r j =
              elem (matrices example_memory 25) r j + elem (matrices example_memory 15) (5 + r) j"
    by (auto simp: grads cfg mats rows_c)
  from T [THEN conjunct2, THEN conjunct2] obtain mem3 where
    r1: "RowRepeatNode_ComputeInputPartial example_repeat ?x example_memory = Returns mem3"
    and r2: "\<forall>a. a \<noteq> 20 \<longrightarrow> matrices mem3 a = matrices example_memory a"
    and r3: "\<forall>i j. i < 2 \<and> j < 3 \<longrightarrow>
            elem (matrices mem3 20) i j =
              elem (matrices example_memory 20) i j
              + sum_list (map (\<lambda>k. elem (matrices example_memory 17) (k * 2 + i) j) [0..<3])"
    by (auto simp: grads cfg mats)
  have e1: "elem (matrices mem1 24) 2 0 = 23" "elem (matrices mem1 24) 0 0 = 1"
    using s3 [rule_format, of 2 0] s3 [rule_format, of 0 0] by (simp_all add: mats elem_def)
  have e2: "elem (matrices mem2 25) 0 0 = 113"
    using k3 [rule_format, of 0 0] by (simp add: mats elem_def)
  have e3: "elem (matrices mem3 20) 0 0 = 10"
    using r3 [rule_format, of 0 0] by (simp add: mats elem_def upt3)
  from s2 k2 r2 have frame: "matrices mem1 13 = matrices example_memory 13"
      "matrices mem2 24 = matrices example_memory 24" "matrices mem2 15 = matrices example_memory 15"
      "matrices mem3 17 = matrices example_memory 17"
    by simp_all
  from s1 k1 r1 e1 e2 e3 frame show ?thesis by blast
qed

section \<open>Layout of a Reshape node\<close>

lemma Validate_layout_pointer:
  assumes "ReshapeNode_Validate_layout NDEBUG node Inputs0 mem0 = Returns (node1, mem1)"
    and "HasMBLayout Inputs0"
  shows "m_pMBLayout node1 = Some (case m_pMBLayout node of None \<Rightarrow> next_free mem0 | Some p0 \<Rightarrow> p0)"
    and "m_pMBLayout node = None \<longrightarrow> next_free mem1 = Suc (next_free mem0)"
  using assms
  by (cases "m_pMBLayout node";
      simp add: ReshapeNode_Validate_layout_def make_shared_MBLayout_def; fastforce)+

text \<open>
  What a validation pass that returns does to the layout of a Reshape node. If the input
  holds a layout (an allocated one that the node does not hold already), the node holds a
  layout of its own at another address: a node without a layout gets the address that
  \<open>make_shared\<close> allocates, beyond every address in use, and a node that had one keeps it.
  \<open>OnEvaluateBeginIteration\<close> then initialises that layout with the input's number of time
  steps times the input's row count divided by \<open>m_numRows\<close>, and with the number of
  parallel sequences that the node's own layout held before; the input's layout is not
  written. If the input holds no layout, the node keeps what it held: none for a node
  that held none, and none in a build with assertions, where the pass returns only then.
  Validation itself changes no layout and no buffer but the node's.
\<close>

lemma ReshapeNode_layout_after_validation:
  assumes "ReshapeNode_Validate NDEBUG fin node Inputs0 mem = Returns (node', mem')"
  shows
    "(\<forall>q. m_pMBLayout Inputs0 = Some q \<and> q < next_free mem \<and> m_pMBLayout node \<noteq> Some q \<longrightarrow>
        (\<exists>p. m_pMBLayout node' = Some p \<and> p \<noteq> q
           \<and> (m_pMBLayout node = None \<longrightarrow> p = next_free mem \<and> next_free mem' = Suc p)
           \<and> (m_pMBLayout node \<noteq> None \<longrightarrow> m_pMBLayout node' = m_pMBLayout node)
           \<and> (\<exists>mem''. ReshapeNode_OnEvaluateBeginIteration node' Inputs0 mem' = Returns mem''
                \<and> m_numTimeSteps (layouts mem'' p)
                     = m_numTimeSteps (layouts mem' q) * GetNumRows Inputs0 mem' div m_numRows node'
                \<and> m_numParallelSequences (layouts mem'' p) = m_numParallelSequences (layouts mem' p)
                \<and> layouts mem'' q = layouts mem' q
                \<and> matrices mem'' = matrices mem')))
     \<and> (m_pMBLayout Inputs0 = None \<and> (\<not> NDEBUG \<or> m_pMBLayout node = None) \<longrightarrow>
          m_pMBLayout node' = None
          \<and> ReshapeNode_OnEvaluateBeginIteration node' Inputs0 mem' = Returns mem')
     \<and> (m_pMBLayout Inputs0 = None \<longrightarrow> m_pMBLayout node' = m_pMBLayout node)
     \<and> layouts mem' = layouts mem
     \<and> m_numRows node' = m_numRows node
     \<and> (\<forall>a. a \<noteq> m_functionValues node \<longrightarrow> matrices mem' a = matrices mem a)"
proof -
  from ReshapeNode_Validate_Returns [OF assms] obtain node1 where
    nz: "m_numRows node \<noteq> 0"
    and lay: "ReshapeNode_Validate_layout NDEBUG node Inputs0
           (Resize node (m_numRows node)
              (GetNumCols Inputs0 mem * GetNumRows Inputs0 mem div m_numRows node) mem)
           = Returns (node1, mem')"
    and inf: "ReshapeNode_InferImageDimsFromInputs node1 Inputs0 = Returns node'"
    by blast
  from ReshapeNode_InferImageDimsFromInputs_fields [OF inf]
  have f': "m_pMBLayout node' = m_pMBLayout node1" "m_numRows node' = m_numRows node1" by simp_all
  from ReshapeNode_Validate_layout_fields [OF lay]
  have f1: "m_numRows node1 = m_numRows node" by simp
  have nz': "m_numRows node' \<noteq> 0" using nz f' f1 by simp
  have part1: "\<exists>p. m_pMBLayout node' = Some p \<and> p \<noteq> q
           \<and> (m_pMBLayout node = None \<longrightarrow> p = next_free mem \<and> next_free mem' = Suc p)
           \<and> (m_pMBLayout node \<noteq> None \<longrightarrow> m_pMBLayout node' = m_pMBLayout node)
           \<and> (\<exists>mem''. ReshapeNode_OnEvaluateBeginIteration node' Inputs0 mem' = Returns mem''
                \<and> m_numTimeSteps (layouts mem'' p)
                     = m_numTimeSteps (layouts mem' q) * GetNumRows Inputs0 mem' div m_numRows node'
                \<and> m_numParallelSequences (layouts mem'' p) = m_numParallelSequences (layouts mem' p)
                \<and> layouts mem'' q = layouts mem' q
                \<and> matrices mem'' = matrices mem')"
    if q: "m_pMBLayout Inputs0 = Some q \<and> q < next_free mem \<and> m_pMBLayout node \<noteq> Some q" for q
  proof -
    from q have has: "HasMBLayout Inputs0" by (simp add: HasMBLayout_def)
    from Validate_layout_pointer [OF lay has] have
      ptr: "m_pMBLayout node1 = Some (case m_pMBLayout node of None \<Rightarrow> next_free mem | Some p0 \<Rightarrow> p0)"
      and nf: "m_pMBLayout node = None \<longrightarrow> next_free mem' = Suc (next_free mem)"
      by (simp_all add: Resize_def split: option.splits)
    define p where "p = (case m_pMBLayout node of None \<Rightarrow> next_free mem | Some p0 \<Rightarrow> p0)"
    have p: "m_pMBLayout node1 = Some p" using ptr by (simp add: p_def)
    have pq: "p \<noteq> q" using q by (cases "m_pMBLayout node") (simp_all add: p_def)
    have fresh: "m_pMBLayout node = None \<longrightarrow> p = next_free mem \<and> next_free mem' = Suc p"
      using nf by (simp add: p_def)
    have kept: "m_pMBLayout node \<noteq> None \<longrightarrow> m_pMBLayout node1 = m_pMBLayout node"
      using p by (cases "m_pMBLayout node") (simp_all add: p_def)
    let ?S = "m_numParallelSequences (layouts mem' p)"
    let ?T = "m_numTimeSteps (layouts mem' q)"
    let ?mem'' = "mem'\<lparr>layouts := (layouts mem')
        (p := Init ?S (?T * GetNumRows Inputs0 mem' div m_numRows node'))\<rparr>"
    have run: "ReshapeNode_OnEvaluateBeginIteration node' Inputs0 mem' = Returns ?mem''"
      using p q nz' f'
      by (simp add: ReshapeNode_OnEvaluateBeginIteration_def GetNumParallelSequences_def
          GetNumTimeSteps_def)
    have "m_numTimeSteps (layouts ?mem'' p) = ?T * GetNumRows Inputs0 mem' div m_numRows node'"
      "m_numParallelSequences (layouts ?mem'' p) = ?S"
      "layouts ?mem'' q = layouts mem' q" "matrices ?mem'' = matrices mem'"
      using pq by (simp_all add: Init_def)
    with run p pq fresh kept f' show ?thesis by auto
  qed
  have part2: "m_pMBLayout node' = None
          \<and> ReshapeNode_OnEvaluateBeginIteration node' Inputs0 mem' = Returns mem'"
    if "m_pMBLayout Inputs0 = None \<and> (\<not> NDEBUG \<or> m_pMBLayout node = None)"
  proof -
    from that lay have "m_pMBLayout node1 = None"
      by (auto simp: ReshapeNode_Validate_layout_def HasMBLayout_def split: if_splits)
    with f' show ?thesis by (simp add: ReshapeNode_OnEvaluateBeginIteration_def)
  qed
  have part2': "m_pMBLayout node' = m_pMBLayout node" if "m_pMBLayout Inputs0 = None"
  proof -
    from that lay have "m_pMBLayout node1 = m_pMBLayout node"
      by (auto simp: ReshapeNode_Validate_layout_def HasMBLayout_def split: if_splits)
    with f' show ?thesis by simp
  qed
  from ReshapeNode_Validate_layout_fields [OF lay]
  have part3: "layouts mem' = layouts mem"
    "\<forall>a. a \<noteq> m_functionValues node \<longrightarrow> matrices mem' a = matrices mem a"
    by (simp_all add: Resize_def)
  have part4: "m_numRows node' = m_numRows node" using f' f1 by simp
  from part1 part2 part2' part3 part4 show ?thesis by blast
qed


lemma example_reshape6_lifecycle:
  fixes L :: MBLayout
  defines "xl \<equiv> (new_ComputationNode ''x'' 0 20)\<lparr>m_pMBLayout := Some 3\<rparr>"
  shows "\<exists>node1 mem1 node2 mem2 mem3.
      ReshapeNode_Validate NDEBUG False example_reshape6 xl (example_minibatch_fresh L)
        = Returns (node1, mem1)
    \<and> ReshapeNode_Validate NDEBUG True node1 xl mem1 = Returns (node2, mem2)
    \<and> ReshapeNode_OnEvaluateBeginIteration node2 xl mem2 = Returns mem3
    \<and> m_pMBLayout node2 = Some 4 \<and> m_numRows node2 = 6 \<and> m_functionValues node2 = 10
    \<and> layouts mem3 = (layouts example_minibatch)(4 := Init (m_numParallelSequences L) 2)
    \<and> matrices mem3 = (matrices example_minibatch)(10 := Matrix_Resize 6 4)"
proof -
  define mem0 where "mem0 = example_minibatch_fresh L"
  define node1 where "node1 = example_reshape6\<lparr>m_pMBLayout := Some 4,
      m_outputImageLayout := \<lparr>width = 1, height = 1, channels = 6\<rparr>\<rparr>"
  define mem1 where "mem1 = (Resize example_reshape6 6 4 mem0)\<lparr>next_free := 5\<rparr>"
  define mem3 where "mem3 = mem1\<lparr>layouts := (layouts mem1)(4 := Init (m_numParallelSequences L) 2)\<rparr>"
  have inp: "GetNumRows xl mem0 = 2" "GetNumCols xl mem0 = 12" "HasMBLayout xl"
      "m_outputImageLayout xl = \<lparr>width = 0, height = 0, channels = 0\<rparr>"
      "m_pMBLayout xl = Some 3"
    by (simp_all add: xl_def mem0_def example_minibatch_fresh_def example_minibatch_def
        new_ComputationNode_def GetNumRows_def GetNumCols_def FunctionValues_def HasMBLayout_def)
  have inp1: "GetNumRows xl mem1 = 2" "GetNumCols xl mem1 = 12"
    by (simp_all add: xl_def mem1_def mem0_def example_minibatch_fresh_def example_minibatch_def
        new_ComputationNode_def GetNumRows_def GetNumCols_def FunctionValues_def Resize_def
        example_reshape6_def new_ReshapeNode_with_def ReshapeNode.defs ComputationNode.defs)
  have node: "m_numRows example_reshape6 = 6" "m_pMBLayout example_reshape6 = None"
      "m_functionValues example_reshape6 = 10"
      "m_imageLayout example_reshape6 = \<lparr>width = 0, height = 0, channels = 0\<rparr>"
      "m_inputImageLayout example_reshape6 = \<lparr>width = 0, height = 0, channels = 0\<rparr>"
    by (simp_all add: example_reshape6_def new_ReshapeNode_with_def new_ComputationNode_def
        ReshapeNode.defs ComputationNode.defs)
  have n1: "m_numRows node1 = 6" "m_pMBLayout node1 = Some 4" "m_functionValues node1 = 10"
      "m_imageLayout node1 = \<lparr>width = 0, height = 0, channels = 0\<rparr>"
    by (simp_all add: node1_def node)
  have nf: "next_free mem0 = 4"
    by (simp add: mem0_def example_minibatch_fresh_def example_minibatch_def)
  have img: "ReshapeNode_InferImageDimsFromInputs (example_reshape6\<lparr>m_pMBLayout := Some 4\<rparr>) xl
      = Returns node1"
    by (simp add: ReshapeNode_InferImageDimsFromInputs_def InferImageDimensions_def
        InferImageDimsFromInput_def Let_def node inp node1_def)
  have img1: "ReshapeNode_InferImageDimsFromInputs node1 xl = Returns node1"
    by (simp add: ReshapeNode_InferImageDimsFromInputs_def InferImageDimensions_def
        InferImageDimsFromInput_def Let_def n1 inp)
       (simp add: node1_def example_reshape6_def new_ReshapeNode_with_def new_ComputationNode_def
        ReshapeNode.defs ComputationNode.defs)
  have v1: "ReshapeNode_Validate NDEBUG False example_reshape6 xl mem0 = Returns (node1, mem1)"
    by (simp add: ReshapeNode_Validate_def ReshapeNode_Validate_layout_def make_shared_MBLayout_def
        Let_def inp node img mem1_def Resize_def nf)
  have idem: "Resize node1 6 4 mem1 = mem1"
    by (simp add: Resize_def mem1_def n1 node)
  have v2: "ReshapeNode_Validate NDEBUG True node1 xl mem1 = Returns (node1, mem1)"
    by (simp add: ReshapeNode_Validate_def ReshapeNode_Validate_layout_def
        Let_def inp inp1 n1 img1 idem)
  have lay1: "layouts mem1 = (layouts example_minibatch)(4 := L)"
    by (simp add: mem1_def mem0_def Resize_def example_minibatch_fresh_def)
  have steps: "m_numTimeSteps (layouts example_minibatch 3) = 6"
    by (simp add: example_minibatch_def Init_def)
  have b: "ReshapeNode_OnEvaluateBeginIteration node1 xl mem1 = Returns mem3"
    by (simp add: ReshapeNode_OnEvaluateBeginIteration_def GetNumParallelSequences_def
        GetNumTimeSteps_def n1 inp inp1 steps mem3_def lay1)
  have l3: "layouts mem3 = (layouts example_minibatch)(4 := Init (m_numParallelSequences L) 2)"
    by (simp add: mem3_def lay1)
  have m3: "matrices mem3 = (matrices example_minibatch)(10 := Matrix_Resize 6 4)"
    by (simp add: mem3_def mem1_def mem0_def Resize_def example_minibatch_fresh_def node)
  from v1 v2 b n1 l3 m3 show ?thesis unfolding mem0_def by blast
qed

text \<open>
  C3. The number of parallel sequences of the layout of a Reshape node is not the input's.
  The node of 6 rows, without a layout, is validated (a first pass, then the final pass)
  on the example input of 2 rows with 2 parallel sequences of 6 time steps, whose layout
  lies at address 3; \<open>L\<close> is what the layout allocated by \<open>make_shared\<close> at address 4
  holds when it is created. After \<open>OnEvaluateBeginIteration\<close> the node's layout, at the
  fresh address 4, has the derived \<open>6 * 2 / 6 = 2\<close> time steps and the number of parallel
  sequences of \<open>L\<close>: the count passed to \<open>Init\<close> is the node's own
  \<open>GetNumParallelSequences()\<close>, and the 2 of the input's layout is never read.
\<close>

theorem ReshapeNode_layout_keeps_own_sequence_count:
  "\<exists>node1 mem1 node2 mem2 mem3.
      ReshapeNode_Validate NDEBUG False example_reshape6
        ((new_ComputationNode ''x'' 0 20)\<lparr>m_pMBLayout := Some 3\<rparr>) (example_minibatch_fresh L)
        = Returns (node1, mem1)
    \<and> ReshapeNode_Validate NDEBUG True node1
        ((new_ComputationNode ''x'' 0 20)\<lparr>m_pMBLayout := Some 3\<rparr>) mem1 = Returns (node2, mem2)
    \<and> ReshapeNode_OnEvaluateBeginIteration node2
        ((new_ComputationNode ''x'' 0 20)\<lparr>m_pMBLayout := Some 3\<rparr>) mem2 = Returns mem3
    \<and> m_pMBLayout node2 = Some 4
    \<and> layouts mem3 3 = Init 2 6
    \<and> layouts mem3 4 = Init (m_numParallelSequences L) 2"
proof -
  from example_reshape6_lifecycle [of NDEBUG L] obtain node1 mem1 node2 mem2 mem3 where
    run: "ReshapeNode_Validate NDEBUG False example_reshape6
        ((new_ComputationNode ''x'' 0 20)\<lparr>m_pMBLayout := Some 3\<rparr>) (example_minibatch_fresh L)
        = Returns (node1, mem1)"
      "ReshapeNode_Validate NDEBUG True node1
        ((new_ComputationNode ''x'' 0 20)\<lparr>m_pMBLayout := Some 3\<rparr>) mem1 = Returns (node2, mem2)"
      "ReshapeNode_OnEvaluateBeginIteration node2
        ((new_ComputationNode ''x'' 0 20)\<lparr>m_pMBLayout := Some 3\<rparr>) mem2 = Returns mem3"
      "m_pMBLayout node2 = Some 4"
    and l: "layouts mem3 = (layouts example_minibatch)(4 := Init (m_numParallelSequences L) 2)"
    by blast
  from l have "layouts mem3 3 = Init 2 6" "layouts mem3 4 = Init (m_numParallelSequences L) 2"
    by (simp_all add: example_minibatch_def)
  with run show ?thesis by blast
qed

section \<open>Unimplemented paths of Reshape\<close>

text \<open>
  C9. The two unimplemented paths of Reshape. Forward evaluation of a node that holds a
  layout and whose \<open>m_numRows\<close> is less than the input's row count always throws, with the
  memory as it was before the call; the error is that of NOT_IMPLEMENTED, thrown by
  \<open>Unstack\<close>, whenever the node is as validation leaves it (\<open>m_numRows\<close> a non-zero divisor of
  the row count, the buffer of the size that \<open>VerifySize\<close> expects). \<open>Unstack\<close> itself throws
  it for every argument. The gradient pass \<open>ComputeInputPartial\<close> throws its LogicError
  for every argument. Neither has written a value when it throws.
\<close>

theorem unimplemented_paths_fail:
  fixes mem :: "'a::semiring_1 Memory"
  shows
  "(m_pMBLayout node \<noteq> None \<and> m_numRows node < GetNumRows Inputs0 mem \<longrightarrow>
      (\<exists>e. ReshapeNode_EvaluateThisNode NDEBUG node Inputs0 mem = Throws e mem))
   \<and> (m_pMBLayout node \<noteq> None \<and> m_numRows node < GetNumRows Inputs0 mem
        \<and> m_numRows node \<noteq> 0 \<and> m_numRows node dvd GetNumRows Inputs0 mem
        \<and> VerifySize node (m_numRows node)
             (GetNumCols Inputs0 mem * GetNumRows Inputs0 mem div m_numRows node) mem \<longrightarrow>
      ReshapeNode_EvaluateThisNode NDEBUG node Inputs0 mem = Throws NotImplemented mem)
   \<and> Unstack fromN node K addTo mem = Throws NotImplemented mem
   \<and> ReshapeNode_ComputeInputPartial node Inputs0 inputIndex mem
        = Throws (LogicError ''ReshapeNode::ComputeInputPartial: to be completed'' []) mem"
proof (intro conjI impI)
  assume "m_pMBLayout node \<noteq> None \<and> m_numRows node < GetNumRows Inputs0 mem"
  then show "\<exists>e. ReshapeNode_EvaluateThisNode NDEBUG node Inputs0 mem = Throws e mem"
    by (auto simp: ReshapeNode_EvaluateThisNode_def isNoop_def weStack_def factor_def Unstack_def
        Let_def)
next
  assume a: "m_pMBLayout node \<noteq> None \<and> m_numRows node < GetNumRows Inputs0 mem
        \<and> m_numRows node \<noteq> 0 \<and> m_numRows node dvd GetNumRows Inputs0 mem
        \<and> VerifySize node (m_numRows node)
             (GetNumCols Inputs0 mem * GetNumRows Inputs0 mem div m_numRows node) mem"
  then have "m_numRows node dvd GetNumCols Inputs0 mem * GetNumRows Inputs0 mem" by simp
  then have "GetNumCols Inputs0 mem * GetNumRows Inputs0 mem div m_numRows node * m_numRows node
      = GetNumCols Inputs0 mem * GetNumRows Inputs0 mem"
    by simp
  with a show "ReshapeNode_EvaluateThisNode NDEBUG node Inputs0 mem = Throws NotImplemented mem"
    by (auto simp: ReshapeNode_EvaluateThisNode_def isNoop_def weStack_def factor_def Unstack_def
        Let_def)
next
  show "Unstack fromN node K addTo mem = Throws NotImplemented mem"
    by (simp add: Unstack_def)
next
  show "ReshapeNode_ComputeInputPartial node Inputs0 inputIndex mem
        = Throws (LogicError ''ReshapeNode::ComputeInputPartial: to be completed'' []) mem"
    by (simp add: ReshapeNode_ComputeInputPartial_def)
qed

theorem unimplemented_paths_fail_witness:
  "ReshapeNode_EvaluateThisNode False example_unstacking (new_ComputationNode ''g'' 30 31) example_minibatch
     = Throws NotImplemented example_minibatch
   \<and> ReshapeNode_EvaluateThisNode True example_unstacking (new_ComputationNode ''g'' 30 31) example_minibatch
     = Throws NotImplemented example_minibatch
   \<and> ReshapeNode_ComputeInputPartial example_unstacking (new_ComputationNode ''g'' 30 31) 0 example_minibatch
     = Throws (LogicError ''ReshapeNode::ComputeInputPartial: to be completed'' []) example_minibatch"
proof -
  let ?g = "new_ComputationNode ''g'' 30 31"
  have node: "m_pMBLayout example_unstacking \<noteq> None" "m_numRows example_unstacking = 3"
    and inp: "GetNumRows ?g example_minibatch = 6" "GetNumCols ?g example_minibatch = 2"
    and size: "VerifySize example_unstacking 3 4 example_minibatch"
    by (simp_all add: example_unstacking_def example_minibatch_def new_ReshapeNode_with_def
        new_ComputationNode_def ReshapeNode.defs ComputationNode.defs GetNumRows_def
        GetNumCols_def FunctionValues_def VerifySize_def)
  show ?thesis
    using
      unimplemented_paths_fail [where node = example_unstacking and ?Inputs0.0 = ?g
        and mem = example_minibatch and fromN = ?g and K = 2 and addTo = False
        and inputIndex = 0 and NDEBUG = False]
      unimplemented_paths_fail [where node = example_unstacking and ?Inputs0.0 = ?g
        and mem = example_minibatch and fromN = ?g and K = 2 and addTo = False
        and inputIndex = 0 and NDEBUG = True]
      size
    by (simp add: node inp)
qed

section \<open>Forward evaluation of Reshape: stacking\<close>

lemma shuffle_index:
  fixes d k s t D K S T :: nat
  assumes "d < D" "k < K" "s < S" "t < T"
  shows "((t * S + s) * K + k) * D + d < D * S * 1 * K * T"
    and "(((t * S + s) * K + k) * D + d) mod D = d"
    and "(((t * S + s) * K + k) * D + d) div D mod K = k"
    and "(((t * S + s) * K + k) * D + d) div (D * K * 1) mod S = s"
    and "(((t * S + s) * K + k) * D + d) div (D * K * 1 * S) = t"
proof -
  let ?nb = "((t * S + s) * K + k) * D + d"
  have b1: "t * S + s < S * T" using index_in_range [OF assms(3) assms(4)] .
  have b2: "(t * S + s) * K + k < K * (S * T)" using index_in_range [OF assms(2) b1] .
  have b3: "?nb < D * (K * (S * T))" using index_in_range [OF assms(1) b2] .
  then show "?nb < D * S * 1 * K * T" by (simp add: ac_simps)
  show "?nb mod D = d" using assms(1) by simp
  have d1: "?nb div D = (t * S + s) * K + k" using assms(1) by simp
  then show "?nb div D mod K = k" using assms(2) by simp
  have d2: "?nb div (D * K * 1) = t * S + s"
    using d1 assms(2) by (simp add: div_mult2_eq)
  then show "?nb div (D * K * 1) mod S = s" using assms(3) by simp
  have "?nb div (D * K * 1 * S) = (?nb div (D * K * 1)) div S"
    by (simp add: div_mult2_eq)
  then show "?nb div (D * K * 1 * S) = t" using d2 assms(3) by simp
qed

lemma TensorShuffleScaleAndAdd_stack:
  fixes a b c :: "'a::semiring_1 Matrix"
  assumes "GetNumElements a = D * S * 1 * K * T" "GetNumElements b = D * S * 1 * K * T"
    "GetNumElements c = D * S * 1 * K * T"
  shows "\<exists>r. TensorShuffleScaleAndAdd 0 a D S 1 K T 1 b c = Some r
     \<and> numRows r = numRows c \<and> numCols r = numCols c
     \<and> length (elems r) = D * S * 1 * K * T
     \<and> (\<forall>d k s t. d < D \<and> k < K \<and> s < S \<and> t < T \<longrightarrow>
           elems r ! (((t * S + s) * K + k) * D + d) = elems a ! (((t * K + k) * S + s) * D + d))"
proof -
  let ?N = "D * S * 1 * K * T"
  let ?f = "\<lambda>nb. let d = nb mod D; k = nb div D mod K; m = nb div (D * K) mod 1;
                   s = nb div (D * K * 1) mod S; t = nb div (D * K * 1 * S);
                   na = (((t * K + k) * 1 + m) * S + s) * D + d
               in 0 * (elems b ! nb) + 1 * (elems a ! na)"
  let ?r = "c\<lparr>elems := map ?f [0..<?N]\<rparr>"
  have run: "TensorShuffleScaleAndAdd 0 a D S 1 K T 1 b c = Some ?r"
    using assms by (simp add: TensorShuffleScaleAndAdd_def Let_def)
  have el: "elems ?r ! (((t * S + s) * K + k) * D + d) = elems a ! (((t * K + k) * S + s) * D + d)"
    if "d < D" "k < K" "s < S" "t < T" for d k s t
  proof -
    let ?nb = "((t * S + s) * K + k) * D + d"
    note ix = shuffle_index [OF that]
    have "elems ?r ! ?nb = ?f ?nb" using ix(1) by simp
    also have "\<dots> = elems a ! (((t * K + k) * S + s) * D + d)"
      unfolding Let_def ix(2) ix(3) ix(4) ix(5) by simp
    finally show ?thesis .
  qed
  show ?thesis
    apply (rule exI [of _ ?r])
    using run el by simp
qed

lemma Stack_correct:
  fixes mem :: "'a::semiring_1 Memory" and toN :: "'z ComputationNode_scheme"
  assumes "m_pMBLayout toN = Some p"
    and "m_numParallelSequences (layouts mem p) = S" "m_numTimeSteps (layouts mem p) = T"
    and "GetNumRows fromN mem = D" "GetNumCols fromN mem = S * K * T"
    and "GetNumRows toN mem = K * D" "GetNumCols toN mem = S * T"
  shows "\<exists>r. Stack fromN toN K False mem =
           Returns (mem\<lparr>matrices := (matrices mem)
              (FunctionValues toN := (matrices mem (FunctionValues toN))\<lparr>elems := r\<rparr>)\<rparr>)
     \<and> length r = K * D * (S * T)
     \<and> (\<forall>d k s t. d < D \<and> k < K \<and> s < S \<and> t < T \<longrightarrow>
           r ! (((t * S + s) * K + k) * D + d)
             = elems (matrices mem (FunctionValues fromN)) ! (((t * K + k) * S + s) * D + d))"
proof -
  let ?In = "matrices mem (FunctionValues fromN)"
  let ?Out = "matrices mem (FunctionValues toN)"
  let ?from0 = "?In\<lparr>numRows := K * D, numCols := S * T\<rparr>"
  let ?fromSlice = "?from0\<lparr>numRows := D, numCols := S * K * T\<rparr>"
  let ?toSlice = "?Out\<lparr>numRows := D, numCols := S * K * T\<rparr>"
  have dimsIn: "numRows ?In = D" "numCols ?In = S * K * T"
    and dimsOut: "numRows ?Out = K * D" "numCols ?Out = S * T"
    using assms(4-7) by (simp_all add: GetNumRows_def GetNumCols_def)
  have R1: "Reshaped ?In (K * D) (S * T) = Some ?from0"
    by (simp add: Reshaped_def GetNumElements_def dimsIn ac_simps)
  have R2: "Reshaped ?from0 D (S * K * T) = Some ?fromSlice"
    by (simp add: Reshaped_def GetNumElements_def ac_simps)
  have R3: "Reshaped ?Out D (S * K * T) = Some ?toSlice"
    by (simp add: Reshaped_def GetNumElements_def dimsOut ac_simps)
  have L: "GetNumParallelSequences toN mem = Some S" "GetNumTimeSteps toN mem = Some T"
    using assms(1-3) by (simp_all add: GetNumParallelSequences_def GetNumTimeSteps_def)
  have n: "GetNumElements ?fromSlice = D * S * 1 * K * T" "GetNumElements ?toSlice = D * S * 1 * K * T"
    by (simp_all add: GetNumElements_def ac_simps)
  from TensorShuffleScaleAndAdd_stack [OF n(1) n(2) n(2)]
  obtain c where
    c: "TensorShuffleScaleAndAdd 0 ?fromSlice D S 1 K T 1 ?toSlice ?toSlice = Some c"
    and len: "length (elems c) = D * S * 1 * K * T"
    and el: "\<forall>d k s t. d < D \<and> k < K \<and> s < S \<and> t < T \<longrightarrow>
           elems c ! (((t * S + s) * K + k) * D + d) = elems ?fromSlice ! (((t * K + k) * S + s) * D + d)"
    by blast
  have run: "Stack fromN toN K False mem =
           Returns (mem\<lparr>matrices := (matrices mem)
              (FunctionValues toN := ?Out\<lparr>elems := elems c\<rparr>)\<rparr>)"
    using c by (simp add: Stack_def R1 R2 R3 L assms(4-7) Let_def)
  show ?thesis
    apply (rule exI [of _ "elems c"])
    using run len el by (simp add: ac_simps)
qed

text \<open>
  \<open>EvaluateThisNode\<close> in the stack direction, given the layout that \<open>Stack\<close> reads. The
  node holds a layout of \<open>S\<close> parallel sequences and \<open>T\<close> time steps; the input has
  \<open>D \<ge> 1\<close> rows and \<open>S * K * T\<close> columns, column \<open>tau * S + s\<close> being time step \<open>tau\<close> of
  sequence \<open>s\<close>; \<open>m_numRows\<close> is \<open>K * D\<close> with \<open>K \<ge> 2\<close>; the node's buffer has the
  validated size and is not the input's. Then forward evaluation returns, the output has
  \<open>K * D\<close> rows and \<open>S * T\<close> columns, and for every output time step \<open>t\<close> of every
  sequence \<open>s\<close>, block \<open>k\<close> (rows \<open>[k * D, (k + 1) * D)\<close>) of output column \<open>t * S + s\<close> is
  input time step \<open>t * K + k\<close> of the same sequence: the \<open>K\<close> consecutive input steps,
  block 0 on top. Every output element is an input element, unchanged; the second form
  gives the input position of every output position. No other buffer and no layout is
  written.
\<close>

lemma ReshapeNode_EvaluateThisNode_stack:
  fixes mem :: "'a::semiring_1 Memory"
  assumes "m_pMBLayout node = Some p"
    and "m_numParallelSequences (layouts mem p) = S" "m_numTimeSteps (layouts mem p) = T"
    and "GetNumRows Inputs0 mem = D" "GetNumCols Inputs0 mem = S * K * T"
    and "D \<ge> 1" "K \<ge> 2"
    and "m_numRows node = K * D"
    and "VerifySize node (K * D) (S * T) mem"
    and "m_functionValues node \<noteq> FunctionValues Inputs0"
  shows "\<exists>mem'. ReshapeNode_EvaluateThisNode NDEBUG node Inputs0 mem = Returns mem'
     \<and> numRows (matrices mem' (m_functionValues node)) = K * D
     \<and> numCols (matrices mem' (m_functionValues node)) = S * T
     \<and> wellformed (matrices mem' (m_functionValues node))
     \<and> (\<forall>d k s t. d < D \<and> k < K \<and> s < S \<and> t < T \<longrightarrow>
          elem (matrices mem' (m_functionValues node)) (k * D + d) (t * S + s)
           = elem (matrices mem (FunctionValues Inputs0)) d ((t * K + k) * S + s))
     \<and> (\<forall>i j. i < K * D \<and> j < S * T \<longrightarrow>
          elem (matrices mem' (m_functionValues node)) i j
           = elem (matrices mem (FunctionValues Inputs0)) (i mod D) ((j div S * K + i div D) * S + j mod S))
     \<and> (\<forall>a. a \<noteq> m_functionValues node \<longrightarrow> matrices mem' a = matrices mem a)
     \<and> layouts mem' = layouts mem"
proof -
  let ?own = "m_functionValues node"
  let ?In = "matrices mem (FunctionValues Inputs0)"
  have own_dims: "GetNumRows node mem = K * D" "GetNumCols node mem = S * T"
    and own_dims': "numRows (matrices mem ?own) = K * D" "numCols (matrices mem ?own) = S * T"
    using assms(9) by (simp_all add: VerifySize_def GetNumRows_def GetNumCols_def FunctionValues_def)
  from Stack_correct [OF assms(1-5) own_dims]
  obtain r where
    stack: "Stack Inputs0 node K False mem =
           Returns (mem\<lparr>matrices := (matrices mem)(?own := (matrices mem ?own)\<lparr>elems := r\<rparr>)\<rparr>)"
    and len: "length r = K * D * (S * T)"
    and el: "\<forall>d k s t. d < D \<and> k < K \<and> s < S \<and> t < T \<longrightarrow>
           r ! (((t * S + s) * K + k) * D + d) = elems ?In ! (((t * K + k) * S + s) * D + d)"
    by (auto simp: FunctionValues_def)
  let ?mem' = "mem\<lparr>matrices := (matrices mem)(?own := (matrices mem ?own)\<lparr>elems := r\<rparr>)\<rparr>"
  have KD: "K * D > D" using assms(6,7) by simp
  have newCols: "S * K * T * D div (K * D) = S * T"
  proof -
    have "S * K * T * D = (S * T) * (K * D)" by (simp add: ac_simps)
    moreover have "K * D > 0" using KD by simp
    ultimately show ?thesis by simp
  qed
  have fac: "factor node Inputs0 mem = Some K"
    using KD assms(4,6,8) by (simp add: factor_def)
  have run: "ReshapeNode_EvaluateThisNode NDEBUG node Inputs0 mem = Returns ?mem'"
    using KD assms(1,4,5,8,9) stack
    by (simp add: ReshapeNode_EvaluateThisNode_def isNoop_def weStack_def Let_def newCols fac ac_simps)
  have out: "matrices ?mem' ?own = (matrices mem ?own)\<lparr>elems := r\<rparr>" by simp
  have e1: "elem (matrices ?mem' ?own) (k * D + d) (t * S + s) = elem ?In d ((t * K + k) * S + s)"
    if "d < D" "k < K" "s < S" "t < T" for d k s t
  proof -
    have "elem (matrices ?mem' ?own) (k * D + d) (t * S + s) = r ! ((t * S + s) * (K * D) + (k * D + d))"
      by (simp add: elem_def own_dims')
    also have "(t * S + s) * (K * D) + (k * D + d) = ((t * S + s) * K + k) * D + d"
      by (simp add: algebra_simps)
    also have "r ! \<dots> = elems ?In ! (((t * K + k) * S + s) * D + d)"
      using el that by blast
    also have "\<dots> = elem ?In d ((t * K + k) * S + s)"
      using assms(4) by (simp add: elem_def GetNumRows_def)
    finally show ?thesis .
  qed
  have e2: "elem (matrices ?mem' ?own) i j = elem ?In (i mod D) ((j div S * K + i div D) * S + j mod S)"
    if "i < K * D" "j < S * T" for i j
  proof -
    have D0: "D > 0" using assms(6) by simp
    have S0: "S > 0" using that(2) by (cases S) simp_all
    have "i div D < K" using that(1) D0 by (simp add: less_mult_imp_div_less)
    moreover have "j div S < T" using that(2) S0 by (simp add: less_mult_imp_div_less mult.commute)
    moreover have "i mod D < D" "j mod S < S" using D0 S0 by simp_all
    ultimately have "elem (matrices ?mem' ?own) (i div D * D + i mod D) (j div S * S + j mod S)
        = elem ?In (i mod D) ((j div S * K + i div D) * S + j mod S)"
      by (intro e1)
    then show ?thesis by simp
  qed
  show ?thesis
    apply (rule exI [of _ ?mem'])
    apply (simp only: run out)
    using e1 e2 len own_dims' by (simp add: wellformed_def)
qed

text \<open>
  C1. The stack direction of Reshape on the example of the source: an input of \<open>D = 2\<close>
  rows with \<open>S = 2\<close> parallel sequences of 6 time steps, stacked by \<open>K = 3\<close> into 6 rows.
  The node, without a layout, is validated (a first pass, then the final pass) and
  \<open>OnEvaluateBeginIteration\<close> is run; \<open>L\<close> is what the layout allocated by \<open>make_shared\<close>
  holds when it is created. \<open>EvaluateThisNode\<close> then fails with a matrix error, the memory
  unchanged, exactly when the number of parallel sequences of \<open>L\<close> is not 2: \<open>Stack\<close>
  takes \<open>S\<close> from the node's layout, which never received the input's count, and
  \<open>D * S * M * K * T\<close> is not the number of elements. When the node's layout does hold the
  2 sequences, as in the second part, where it is set up by hand with 2 time steps, the
  evaluation of the same input returns the permutation: with sequence 0 holding the
  columns \<open>(1, 11), (2, 12), ..., (6, 16)\<close> and sequence 1 the columns
  \<open>(21, 31), ..., (26, 36)\<close>, interleaved in the input, the output columns are steps
  0 to 2 of sequence 0, steps 0 to 2 of sequence 1, steps 3 to 5 of sequence 0 and steps 3
  to 5 of sequence 1, block 0 on top, every value unchanged.
\<close>

theorem ReshapeNode_stack_forward_after_validation:
  "(\<exists>node1 mem1 node2 mem2 mem3.
      ReshapeNode_Validate NDEBUG False example_reshape6
        ((new_ComputationNode ''x'' 0 20)\<lparr>m_pMBLayout := Some 3\<rparr>) (example_minibatch_fresh L)
        = Returns (node1, mem1)
    \<and> ReshapeNode_Validate NDEBUG True node1
        ((new_ComputationNode ''x'' 0 20)\<lparr>m_pMBLayout := Some 3\<rparr>) mem1 = Returns (node2, mem2)
    \<and> ReshapeNode_OnEvaluateBeginIteration node2
        ((new_ComputationNode ''x'' 0 20)\<lparr>m_pMBLayout := Some 3\<rparr>) mem2 = Returns mem3
    \<and> ((ReshapeNode_EvaluateThisNode NDEBUG node2
            ((new_ComputationNode ''x'' 0 20)\<lparr>m_pMBLayout := Some 3\<rparr>) mem3 = Throws MatrixError mem3)
         \<longleftrightarrow> m_numParallelSequences L \<noteq> 2))
   \<and> ReshapeNode_EvaluateThisNode NDEBUG example_stacking (new_ComputationNode ''x'' 0 20)
          example_minibatch
       = Returns (example_minibatch\<lparr>matrices := (matrices example_minibatch)
           (10 := \<lparr>numRows = 6, numCols = 4,
                   elems = [1, 11, 2, 12, 3, 13, 21, 31, 22, 32, 23, 33,
                            4, 14, 5, 15, 6, 16, 24, 34, 25, 35, 26, 36]\<rparr>)\<rparr>)"
proof
  let ?xl = "(new_ComputationNode ''x'' 0 20)\<lparr>m_pMBLayout := Some 3\<rparr>"
  from example_reshape6_lifecycle [of NDEBUG L] obtain node1 mem1 node2 mem2 mem3 where
    run: "ReshapeNode_Validate NDEBUG False example_reshape6 ?xl (example_minibatch_fresh L)
        = Returns (node1, mem1)"
      "ReshapeNode_Validate NDEBUG True node1 ?xl mem1 = Returns (node2, mem2)"
      "ReshapeNode_OnEvaluateBeginIteration node2 ?xl mem2 = Returns mem3"
    and n2: "m_pMBLayout node2 = Some 4" "m_numRows node2 = 6" "m_functionValues node2 = 10"
    and l3: "layouts mem3 = (layouts example_minibatch)(4 := Init (m_numParallelSequences L) 2)"
    and m3: "matrices mem3 = (matrices example_minibatch)(10 := Matrix_Resize 6 4)"
    by blast
  define S0 where "S0 = m_numParallelSequences L"
  have lay: "m_numParallelSequences (layouts mem3 4) = S0" "m_numTimeSteps (layouts mem3 4) = 2"
    by (simp_all add: l3 Init_def S0_def)
  have fv: "FunctionValues ?xl = 0" "FunctionValues node2 = 10"
    by (simp_all add: FunctionValues_def new_ComputationNode_def n2)
  have mats: "numRows (matrices mem3 0) = 2" "numCols (matrices mem3 0) = 12"
      "numRows (matrices mem3 10) = 6" "numCols (matrices mem3 10) = 4"
    by (simp_all add: m3 example_minibatch_def Matrix_Resize_def)
  have inp: "GetNumRows ?xl mem3 = 2" "GetNumCols ?xl mem3 = 12"
      "GetNumRows node2 mem3 = 6" "GetNumCols node2 mem3 = 4"
    by (simp_all add: GetNumRows_def GetNumCols_def fv mats)
  have size: "VerifySize node2 6 4 mem3"
    by (simp add: VerifySize_def n2 mats)
  have fac: "factor node2 ?xl mem3 = Some 3"
    by (simp add: factor_def n2 inp)
  have counts: "GetNumParallelSequences node2 mem3 = Some S0" "GetNumTimeSteps node2 mem3 = Some 2"
    by (simp_all add: GetNumParallelSequences_def GetNumTimeSteps_def n2 lay)
  have ev: "ReshapeNode_EvaluateThisNode NDEBUG node2 ?xl mem3 = Stack ?xl node2 3 False mem3"
    using size by (simp add: ReshapeNode_EvaluateThisNode_def isNoop_def weStack_def Let_def n2 inp fac)
  have fails: "ReshapeNode_EvaluateThisNode NDEBUG node2 ?xl mem3 = Throws MatrixError mem3"
    if "S0 \<noteq> 2"
  proof -
    have "12 * S0 \<noteq> 24" using that by arith
    then show ?thesis
      unfolding ev
      by (simp add: Stack_def Reshaped_def GetNumElements_def TensorShuffleScaleAndAdd_def
          Let_def inp fv mats counts)
  qed
  have returns: "\<exists>mem'. ReshapeNode_EvaluateThisNode NDEBUG node2 ?xl mem3 = Returns mem'"
    if "S0 = 2"
  proof -
    have a: "m_numParallelSequences (layouts mem3 4) = 2" using lay that by simp
    have b: "GetNumRows ?xl mem3 = 2" "GetNumCols ?xl mem3 = 2 * 3 * 2" "m_numRows node2 = 3 * 2"
        "VerifySize node2 (3 * 2) (2 * 2) mem3" "m_functionValues node2 \<noteq> FunctionValues ?xl"
      using size by (simp_all add: inp n2 fv)
    from ReshapeNode_EvaluateThisNode_stack [OF n2(1) a lay(2) b(1,2) _ _ b(3,4,5), of NDEBUG]
    show ?thesis by auto
  qed
  have "(ReshapeNode_EvaluateThisNode NDEBUG node2 ?xl mem3 = Throws MatrixError mem3)
         \<longleftrightarrow> m_numParallelSequences L \<noteq> 2"
    using fails returns unfolding S0_def by auto
  with run show "\<exists>node1 mem1 node2 mem2 mem3.
      ReshapeNode_Validate NDEBUG False example_reshape6 ?xl (example_minibatch_fresh L)
        = Returns (node1, mem1)
    \<and> ReshapeNode_Validate NDEBUG True node1 ?xl mem1 = Returns (node2, mem2)
    \<and> ReshapeNode_OnEvaluateBeginIteration node2 ?xl mem2 = Returns mem3
    \<and> ((ReshapeNode_EvaluateThisNode NDEBUG node2 ?xl mem3 = Throws MatrixError mem3)
         \<longleftrightarrow> m_numParallelSequences L \<noteq> 2)"
    by blast
next
  let ?x = "new_ComputationNode ''x'' 0 20"
  have node: "m_pMBLayout example_stacking = Some 0" "m_numRows example_stacking = 6"
      "m_functionValues example_stacking = 10" "FunctionValues example_stacking = 10"
    and lay: "layouts example_minibatch 0 = Init 2 2"
    and inp: "FunctionValues ?x = 0"
    and mats: "matrices example_minibatch 0 = \<lparr>numRows = 2, numCols = 12,
                            elems = [1, 11, 21, 31, 2, 12, 22, 32, 3, 13, 23, 33,
                                     4, 14, 24, 34, 5, 15, 25, 35, 6, 16, 26, 36]\<rparr>"
       "matrices example_minibatch 10 = \<lparr>numRows = 6, numCols = 4, elems = replicate 24 0\<rparr>"
    by (simp_all add: example_stacking_def example_minibatch_def new_ReshapeNode_with_def
        new_ComputationNode_def ReshapeNode.defs ComputationNode.defs FunctionValues_def)
  have upt: "[0..<24] = [0,1,2,3,4,5,6,7,8,9,10,11,12,13,14,15,16,17,18,19,20,21,22,23::nat]"
    by (simp add: upt_conv_Cons)
  show "ReshapeNode_EvaluateThisNode NDEBUG example_stacking ?x example_minibatch
       = Returns (example_minibatch\<lparr>matrices := (matrices example_minibatch)
           (10 := \<lparr>numRows = 6, numCols = 4,
                   elems = [1, 11, 2, 12, 3, 13, 21, 31, 22, 32, 23, 33,
                            4, 14, 5, 15, 6, 16, 24, 34, 25, 35, 26, 36]\<rparr>)\<rparr>)"
    by (simp add: ReshapeNode_EvaluateThisNode_def isNoop_def weStack_def factor_def Let_def
        VerifySize_def GetNumRows_def GetNumCols_def node inp mats lay Init_def Stack_def
        Reshaped_def GetNumElements_def GetNumParallelSequences_def GetNumTimeSteps_def
        TensorShuffleScaleAndAdd_def upt)
qed

section \<open>Reshape without layout\<close>

lemma ReshapeNode_Validate_final_without_layout:
  assumes "m_pMBLayout node = None"
    and "m_numRows node \<noteq> 0" "GetNumRows Inputs0 mem \<noteq> 0"
    and "GetNumRows Inputs0 mem dvd m_numRows node \<or> m_numRows node dvd GetNumRows Inputs0 mem"
    and "m_numRows node dvd GetNumRows Inputs0 mem * GetNumCols Inputs0 mem"
  shows "ReshapeNode_Validate NDEBUG True node Inputs0 mem
     = Throws (LogicError ''%ls %ls operation: unexpected dimension mismatch'' []) (node, mem)"
proof -
  let ?m = "m_numRows node" and ?rows = "GetNumRows Inputs0 mem" and ?cols = "GetNumCols Inputs0 mem"
  let ?newCols = "?cols * ?rows div ?m"
  have "\<not> (?m > ?rows \<and> ?rows = 0)" using assms(3) by simp
  from multiple_or_divisor_iff [OF assms(2) this] assms(4)
  have ok: "\<not> ((?m > ?rows \<and> ?m mod ?rows \<noteq> 0) \<or> (?m < ?rows \<and> ?rows mod ?m \<noteq> 0))"
    by blast
  have prod: "?newCols * ?m = ?rows * ?cols"
    using assms(5) by (simp add: mult.commute)
  have mismatch: "(if ?rows * ?cols \<noteq> ?m then 1 else 0) \<noteq> ?newCols"
  proof (cases "?rows * ?cols = ?m")
    case True
    with prod assms(2) have "?newCols = 1" by simp
    with True show ?thesis by simp
  next
    case False
    have "?newCols \<noteq> 1" using prod False by auto
    with False show ?thesis by simp
  qed
  show ?thesis
    using assms(1,2,3) ok mismatch
    by (simp add: ReshapeNode_Validate_def Let_def)
qed

lemma ReshapeNode_EvaluateThisNode_without_layout:
  fixes mem :: "'a::semiring_1 Memory"
  assumes "m_pMBLayout node = None"
    and "m_numRows node \<noteq> 0" "m_numRows node \<noteq> GetNumRows Inputs0 mem"
    and "m_numRows node dvd GetNumRows Inputs0 mem * GetNumCols Inputs0 mem"
    and "VerifySize node (m_numRows node)
           (GetNumCols Inputs0 mem * GetNumRows Inputs0 mem div m_numRows node) mem"
  shows "ReshapeNode_EvaluateThisNode NDEBUG node Inputs0 mem =
     Returns (mem\<lparr>matrices := (matrices mem)(m_functionValues node :=
        \<lparr>numRows = m_numRows node,
         numCols = GetNumCols Inputs0 mem * GetNumRows Inputs0 mem div m_numRows node,
         elems = elems (matrices mem (FunctionValues Inputs0))\<rparr>)\<rparr>)"
proof -
  let ?m = "m_numRows node" and ?rows = "GetNumRows Inputs0 mem" and ?cols = "GetNumCols Inputs0 mem"
  let ?newCols = "?cols * ?rows div ?m"
  have prod: "?newCols * ?m = ?cols * ?rows"
    using assms(4) by (simp add: mult.commute)
  have own: "numRows (matrices mem (m_functionValues node)) = ?m"
    "numCols (matrices mem (m_functionValues node)) = ?newCols"
    using assms(5) by (simp_all add: VerifySize_def)
  have E1: "numRows (matrices mem (m_functionValues node)) * numCols (matrices mem (m_functionValues node))
      = ?cols * ?rows"
    using prod by (simp add: own mult.commute)
  have E2: "numRows (matrices mem (FunctionValues Inputs0)) * numCols (matrices mem (FunctionValues Inputs0))
      = ?cols * ?rows"
    by (simp add: GetNumRows_def GetNumCols_def mult.commute)
  have M: "(matrices mem (m_functionValues node))\<lparr>elems := elems (matrices mem (FunctionValues Inputs0))\<rparr>
      = \<lparr>numRows = ?m, numCols = ?newCols, elems = elems (matrices mem (FunctionValues Inputs0))\<rparr>"
    using own by simp
  show ?thesis
    using assms(1,2,3,5) prod
    by (simp add: ReshapeNode_EvaluateThisNode_def isNoop_def Let_def Reshaped_def
        GetNumElements_def E1 E2 M)
qed

text \<open>
  C2. A reshape without layout, from 2 rows by 3 columns to 6 rows: \<open>m_numRows\<close> is a
  multiple of the row count and the element count is kept (6 by 1). The final validation
  pass throws the LogicError of its second check, because that check compares the truth
  value of \<open>rows * cols != m_numRows\<close> with \<open>newCols\<close>; by
  \<open>ReshapeNode_Validate_final_without_layout\<close> it does so for every reshape without
  layout that keeps the element count. The forward evaluation itself, reached after a
  non-final pass, copies the input as one long vector into the 6 by 1 output.
\<close>

theorem ReshapeNode_final_validation_rejects_valid_reshape:
  "ReshapeNode_Validate NDEBUG True example_reshape6 (new_ComputationNode ''x'' 0 20) example_memory
     = Throws (LogicError ''%ls %ls operation: unexpected dimension mismatch'' [])
         (example_reshape6, example_memory)
   \<and> (\<exists>node' mem'.
        ReshapeNode_Validate NDEBUG False example_reshape6 (new_ComputationNode ''x'' 0 20) example_memory
          = Returns (node', mem')
      \<and> ReshapeNode_EvaluateThisNode NDEBUG node' (new_ComputationNode ''x'' 0 20) mem'
          = Returns (mem'\<lparr>matrices := (matrices mem')
              (10 := \<lparr>numRows = 6, numCols = 1, elems = [1, 2, 3, 4, 5, 6]\<rparr>)\<rparr>))"
proof -
  let ?x = "new_ComputationNode ''x'' 0 20"
  have node: "m_numRows example_reshape6 = 6" "m_pMBLayout example_reshape6 = None"
      "m_functionValues example_reshape6 = 10"
      "InferImageDimensions example_reshape6 = Returns example_reshape6"
    by (simp_all add: example_reshape6_def new_ReshapeNode_with_def new_ComputationNode_def
        ReshapeNode.defs ComputationNode.defs InferImageDimensions_def Let_def)
  have inp: "GetNumRows ?x example_memory = 2" "GetNumCols ?x example_memory = 3"
      "m_pMBLayout ?x = None" "FunctionValues ?x = 0"
      "matrices example_memory 0 = \<lparr>numRows = 2, numCols = 3, elems = [1, 2, 3, 4, 5, 6]\<rparr>"
    by (simp_all add: example_memory_def new_ComputationNode_def GetNumRows_def GetNumCols_def
        FunctionValues_def)
  have final: "ReshapeNode_Validate NDEBUG True example_reshape6 ?x example_memory
     = Throws (LogicError ''%ls %ls operation: unexpected dimension mismatch'' [])
         (example_reshape6, example_memory)"
    by (rule ReshapeNode_Validate_final_without_layout) (simp_all add: node inp)
  have "\<exists>s. ReshapeNode_Validate NDEBUG False example_reshape6 ?x example_memory = Returns s"
    by (rule ReshapeNode_Validate_nonfinal_returns) (simp_all add: node inp)
  then obtain node' mem' where
    v: "ReshapeNode_Validate NDEBUG False example_reshape6 ?x example_memory = Returns (node', mem')"
    by (metis surj_pair)
  from ReshapeNode_Validate_Returns [OF v] obtain node1 where
    lay: "ReshapeNode_Validate_layout NDEBUG example_reshape6 ?x
           (Resize example_reshape6 6 (3 * 2 div 6) example_memory) = Returns (node1, mem')"
    and inf: "ReshapeNode_InferImageDimsFromInputs node1 ?x = Returns node'"
    by (auto simp: node inp)
  from lay have mem': "mem' = Resize example_reshape6 6 1 example_memory"
    and n1: "m_pMBLayout node1 = None" "m_numRows node1 = 6" "m_functionValues node1 = 10"
    by (auto simp: ReshapeNode_Validate_layout_def HasMBLayout_def inp node split: if_splits)
  from ReshapeNode_InferImageDimsFromInputs_fields [OF inf] n1
  have n': "m_pMBLayout node' = None" "m_numRows node' = 6" "m_functionValues node' = 10"
    by simp_all
  have in': "GetNumRows ?x mem' = 2" "GetNumCols ?x mem' = 3"
    "matrices mem' 0 = \<lparr>numRows = 2, numCols = 3, elems = [1, 2, 3, 4, 5, 6]\<rparr>"
    by (simp_all add: mem' matrices_Resize node inp GetNumRows_def GetNumCols_def)
  have size: "VerifySize node' 6 1 mem'"
    by (simp add: VerifySize_def n' mem' matrices_Resize node Matrix_Resize_def)
  have "ReshapeNode_EvaluateThisNode NDEBUG node' ?x mem'
      = Returns (mem'\<lparr>matrices := (matrices mem')
              (10 := \<lparr>numRows = 6, numCols = 1, elems = [1, 2, 3, 4, 5, 6]\<rparr>)\<rparr>)"
    using ReshapeNode_EvaluateThisNode_without_layout [of node' ?x mem'] size
    by (simp add: n' in' inp)
  with final v show ?thesis by blast
qed

section \<open>No-op nodes and their value accessors\<close>

lemma noop_forward_and_accessors:
  fixes mem :: "'a::semiring_1 Memory" and rmem :: "'b Memory"
  shows "(isNoop node Inputs0 mem \<longrightarrow>
            ReshapeNode_EvaluateThisNode NDEBUG node Inputs0 mem = Returns mem
          \<and> ReshapeNode_FunctionValues_const node Inputs0 mem = FunctionValues Inputs0
          \<and> ReshapeNode_FunctionValues node Inputs0 mem = m_functionValues node)
       \<and> (RowRepeatNode_isNoop rnode \<longrightarrow>
            RowRepeatNode_EvaluateThisNode rnode rInput rmem = Returns rmem
          \<and> RowRepeatNode_FunctionValues_const rnode rInput = FunctionValues rInput
          \<and> RowRepeatNode_FunctionValues rnode rInput = FunctionValues rInput)"
  by (simp add: ReshapeNode_EvaluateThisNode_def ReshapeNode_FunctionValues_const_def
      ReshapeNode_FunctionValues_def RowRepeatNode_EvaluateThisNode_def
      RowRepeatNode_FunctionValues_const_def RowRepeatNode_FunctionValues_def FunctionValues_def)

text \<open>
  C8. The no-op nodes. A Reshape node whose \<open>m_numRows\<close> is the input's row count, here 2
  rows on a 2 by 3 input held at address 0, the node's own buffer at address 10: forward
  evaluation returns without writing, and the const value accessor returns the input's
  buffer; the non-const accessor, which ReshapeNode does not override, returns the
  node's own buffer, which forward evaluation has not written and which holds other
  contents. A RowRepeat node with a repeat count of 1 writes nothing either, and both of
  its accessors return the input's buffer.
\<close>

theorem ReshapeNode_noop_nonconst_accessor_returns_own_buffer:
  "isNoop example_noop (new_ComputationNode ''x'' 0 20) example_memory
   \<and> ReshapeNode_EvaluateThisNode NDEBUG example_noop (new_ComputationNode ''x'' 0 20) example_memory
       = Returns example_memory
   \<and> ReshapeNode_FunctionValues_const example_noop (new_ComputationNode ''x'' 0 20) example_memory = 0
   \<and> ReshapeNode_FunctionValues example_noop (new_ComputationNode ''x'' 0 20) example_memory = 10
   \<and> FunctionValues (new_ComputationNode ''x'' 0 20) = 0
   \<and> matrices example_memory 10 \<noteq> matrices example_memory 0
   \<and> RowRepeatNode_isNoop example_repeat_once
   \<and> RowRepeatNode_EvaluateThisNode example_repeat_once (new_ComputationNode ''x'' 0 20) example_memory
       = Returns example_memory
   \<and> RowRepeatNode_FunctionValues_const example_repeat_once (new_ComputationNode ''x'' 0 20) = 0
   \<and> RowRepeatNode_FunctionValues example_repeat_once (new_ComputationNode ''x'' 0 20) = 0"
proof -
  let ?x = "new_ComputationNode ''x'' 0 20"
  have n: "isNoop example_noop ?x example_memory" "m_functionValues example_noop = 10"
      "FunctionValues ?x = 0" "RowRepeatNode_isNoop example_repeat_once"
      "matrices example_memory 10 \<noteq> matrices example_memory 0"
    by (simp_all add: isNoop_def example_noop_def example_repeat_once_def example_memory_def
        new_ReshapeNode_with_def new_ComputationNode_def ReshapeNode.defs RowRepeatNode.defs
        ComputationNode.defs GetNumRows_def FunctionValues_def RowRepeatNode_isNoop_def)
  from noop_forward_and_accessors [where node = example_noop and ?Inputs0.0 = ?x
      and mem = example_memory and rnode = example_repeat_once and rInput = ?x
      and rmem = example_memory and NDEBUG = NDEBUG] n
  show ?thesis by simp
qed

end
